theory Spec2Isabelle
  imports Main
begin

section \<open>Lua values and the Lua state\<close>

text \<open>
  The binding \<^verbatim>\<open>lua-mosquitto.c\<close> sits between two libraries: the Lua interpreter
  (its C API: a value stack, the registry, protected calls) and libmosquitto (the
  MQTT codec).  The functions of the binding are embedded as state transformers on a
  record \<open>world\<close>; the two libraries are modelled as far as the binding observes them:

  \<^item> the Lua C API functions the binding calls follow the Lua reference manual;
  \<^item> libmosquitto is a trusted collaborator: each call the binding makes is appended
    to a trace (\<open>codec_calls\<close>), the return code of the call is a parameter of the
    embedded function, and the events the library reports while a loop call runs are
    a parameter too.

  Lua numbers are restricted to integers, and the \<^verbatim>\<open>int\<close> variables of the C code
  are unbounded integers (no property below depends on overflow).  A Lua function is
  identified by a number; what it does when called (return normally or raise an error
  value) is given by a behaviour \<open>H\<close>, and every invocation is recorded in \<open>calls\<close>.
  A hook does not call back into the binding.
\<close>

record mosquitto_message =
  mid :: int
  topic :: string
  payload :: string
  qos :: int
  retain :: bool

text \<open>What a light userdata of the binding points to.\<close>

datatype cdata = Msg mosquitto_message | Cstr string

text \<open>The C functions the binding itself pushes on the Lua stack.\<close>

datatype cfunction =
    Ctx_on_connect_safe
  | Ctx_on_disconnect_safe
  | Ctx_on_message_safe
  | Ctx_on_log_safe

text \<open>
  Tables matter as metatables only: \<open>Meta_ctx\<close> is the table that
  \<^verbatim>\<open>luaopen_mosquitto\<close> registers under \<^verbatim>\<open>MOSQ_META_CTX\<close>, \<open>Fresh n\<close> is the
  \<open>n\<close>-th table made by \<^verbatim>\<open>lua_newtable\<close>.
\<close>

datatype table_id = Meta_ctx | Fresh nat

datatype lua_value =
    LNil
  | LBoolean bool
  | LNumber int
  | LString string
  | LFunction nat
  | LCFunction cfunction
  | LUserdata nat
  | LLightuserdata cdata
  | LTable table_id

datatype lua_type =
    TNIL | TBOOLEAN | TNUMBER | TSTRING | TFUNCTION | TUSERDATA | TLIGHTUSERDATA | TTABLE

fun lua_type_of :: "lua_value \<Rightarrow> lua_type" where
  "lua_type_of LNil = TNIL"
| "lua_type_of (LBoolean _) = TBOOLEAN"
| "lua_type_of (LNumber _) = TNUMBER"
| "lua_type_of (LString _) = TSTRING"
| "lua_type_of (LFunction _) = TFUNCTION"
| "lua_type_of (LCFunction _) = TFUNCTION"
| "lua_type_of (LUserdata _) = TUSERDATA"
| "lua_type_of (LLightuserdata _) = TLIGHTUSERDATA"
| "lua_type_of (LTable _) = TTABLE"

fun lua_typename :: "lua_type \<Rightarrow> string" where
  "lua_typename TNIL = ''nil''"
| "lua_typename TBOOLEAN = ''boolean''"
| "lua_typename TNUMBER = ''number''"
| "lua_typename TSTRING = ''string''"
| "lua_typename TFUNCTION = ''function''"
| "lua_typename TUSERDATA = ''userdata''"
| "lua_typename TLIGHTUSERDATA = ''userdata''"
| "lua_typename TTABLE = ''table''"

text \<open>
  Who owns a metatable: a full userdata and a table have one each, every other type
  has one for all its values.
\<close>

datatype meta_owner = Of_udata nat | Of_table table_id | Of_type lua_type

fun meta_owner_of :: "lua_value \<Rightarrow> meta_owner" where
  "meta_owner_of (LUserdata a) = Of_udata a"
| "meta_owner_of (LTable t) = Of_table t"
| "meta_owner_of v = Of_type (lua_type_of v)"

text \<open>Errors a C function of the binding raises through the auxiliary library.\<close>

datatype lua_error =
    Arg_error nat string
  | Type_error nat string
  | Lua_error string

text \<open>
  The result of a C function: it returns (a Lua C function returns the number of
  results it left on top of the stack), it raises a Lua error, or its behaviour is
  undefined in C (a null pointer is dereferenced).
\<close>

datatype 'a outcome = Returns 'a | Raises lua_error | Undefined

subsection \<open>libmosquitto as the binding sees it\<close>

text \<open>
  The return codes the binding names.  Their numeric values are in
  \<^verbatim>\<open>mosquitto.h\<close>, which is not part of the repository; the case labels of a C
  \<^verbatim>\<open>switch\<close> are pairwise distinct, so the named codes are distinct constructors and
  every other value of the \<^verbatim>\<open>int\<close> is \<open>MOSQ_ERR_OTHER\<close>.
\<close>

datatype mosq_err_t =
    MOSQ_ERR_SUCCESS
  | MOSQ_ERR_INVAL
  | MOSQ_ERR_NOMEM
  | MOSQ_ERR_PROTOCOL
  | MOSQ_ERR_NOT_SUPPORTED
  | MOSQ_ERR_NO_CONN
  | MOSQ_ERR_CONN_LOST
  | MOSQ_ERR_PAYLOAD_SIZE
  | MOSQ_ERR_ERRNO
  | MOSQ_ERR_OTHER int

datatype protocol = MQTT_PROTOCOL_V31 | MQTT_PROTOCOL_V311

text \<open>The callback types of the binding (the \<^verbatim>\<open>#define\<close>s at the top of the file).\<close>

definition CONNECT :: int where "CONNECT = 0x10"
definition PUBLISH :: int where "PUBLISH = 0x30"
definition SUBSCRIBE :: int where "SUBSCRIBE = 0x80"
definition UNSUBSCRIBE :: int where "UNSUBSCRIBE = 0xA0"
definition DISCONNECT :: int where "DISCONNECT = 0xE0"
definition MESSAGE :: int where "MESSAGE = 0x01"
definition LOG :: int where "LOG = 0x02"

text \<open>
  The calls into libmosquitto that the embedded functions make, with the arguments
  that matter to the properties below.  A handle (\<^verbatim>\<open>struct mosquitto *\<close>) and a
  userdata block are addresses.
\<close>

datatype codec_call =
    Mosquitto_new "string option" bool nat
  | Mosquitto_destroy nat
  | Mosquitto_reinitialise nat "string option" bool nat
  | Mosquitto_opts_set_protocol_version nat protocol
  | Mosquitto_loop nat int int
  | Mosquitto_loop_forever nat int int
  | Mosquitto_loop_start nat
  | Mosquitto_loop_stop nat bool
  | Mosquitto_loop_read nat int
  | Mosquitto_loop_write nat int
  | Mosquitto_loop_misc nat
  | Mosquitto_callback_set nat int

text \<open>
  What the C library, \<^verbatim>\<open>mosquitto.h\<close> and the Lua interpreter decide and the
  binding only reads: \<^verbatim>\<open>errno\<close> and the message texts, the numeric value of a
  return code, the values of the log levels, the conversion of a string to a number,
  and whether \<^verbatim>\<open>lua_checkstack\<close> can grow the stack by the given number of slots.
\<close>

record environment =
  errno :: int
  strerror :: "int \<Rightarrow> string"
  mosquitto_strerror :: "mosq_err_t \<Rightarrow> string"
  mosq_err_value :: "mosq_err_t \<Rightarrow> int"
  str2number :: "string \<Rightarrow> int option"
  lua_checkstack :: "nat \<Rightarrow> bool"
  MOSQ_LOG_NONE :: int
  MOSQ_LOG_INFO :: int
  MOSQ_LOG_NOTICE :: int
  MOSQ_LOG_WARNING :: int
  MOSQ_LOG_ERR :: int
  MOSQ_LOG_DEBUG :: int
  MOSQ_LOG_ALL :: int

subsection \<open>The context of one client instance\<close>

text \<open>
  \<^verbatim>\<open>ctx_t\<close>.  The pointer \<^verbatim>\<open>L\<close> is either null or the Lua state that runs the
  binding; \<^verbatim>\<open>mosq\<close> is the handle of the codec; the seven \<^verbatim>\<open>on_*\<close> fields are
  registry references.
\<close>

datatype lua_State_ptr = NULL | Lua_state

record ctx_t =
  ctx_L :: lua_State_ptr
  mosq :: nat
  on_connect :: int
  on_disconnect :: int
  on_publish :: int
  on_message :: int
  on_subscribe :: int
  on_unsubscribe :: int
  on_log :: int

text \<open>
  The state: the stack of the running C function, the registry's references, the
  metatables, the memory of the userdata blocks (by address), and the two traces.
\<close>

record world =
  stack :: "lua_value list"
  registry :: "(int \<times> lua_value) list"
  metatables :: "meta_owner \<Rightarrow> table_id option"
  next_table :: nat
  udata :: "nat \<Rightarrow> ctx_t"
  next_udata :: nat
  codec_calls :: "codec_call list"
  calls :: "(nat \<times> lua_value list) list"

type_synonym behaviour = "nat \<Rightarrow> lua_value list \<Rightarrow> lua_value option"

subsection \<open>The Lua C API\<close>

definition LUA_REFNIL :: int where "LUA_REFNIL = -1"

definition LUA_ERRRUN :: int where "LUA_ERRRUN = 2"

text \<open>
  The value at a stack index: positive indices count from the bottom (1 is the first
  argument), negative ones from the top; \<open>None\<close> is \<^verbatim>\<open>LUA_TNONE\<close>.
\<close>

definition index_value :: "world \<Rightarrow> int \<Rightarrow> lua_value option" where
  "index_value w i =
     (let n = int (length (stack w)) in
      if 0 < i \<and> i \<le> n then Some (stack w ! nat (i - 1))
      else if i < 0 \<and> - i \<le> n then Some (stack w ! nat (n + i))
      else None)"

definition lua_push :: "lua_value \<Rightarrow> world \<Rightarrow> world" where
  "lua_push v w = w\<lparr>stack := stack w @ [v]\<rparr>"

definition lua_pushnil :: "world \<Rightarrow> world" where
  "lua_pushnil = lua_push LNil"

definition lua_pushboolean :: "bool \<Rightarrow> world \<Rightarrow> world" where
  "lua_pushboolean b = lua_push (LBoolean b)"

definition lua_pushinteger :: "int \<Rightarrow> world \<Rightarrow> world" where
  "lua_pushinteger n = lua_push (LNumber n)"

text \<open>A C string ends at its first zero byte; a Lua string may hold zero bytes.\<close>

definition c_str :: "string \<Rightarrow> string" where
  "c_str s = takeWhile (\<lambda>c. c \<noteq> CHR 0x00) s"

definition lua_pushstring :: "string \<Rightarrow> world \<Rightarrow> world" where
  "lua_pushstring s = lua_push (LString (c_str s))"

definition lua_pushlstring :: "string \<Rightarrow> world \<Rightarrow> world" where
  "lua_pushlstring s = lua_push (LString s)"

definition lua_pushcfunction :: "cfunction \<Rightarrow> world \<Rightarrow> world" where
  "lua_pushcfunction f = lua_push (LCFunction f)"

definition lua_pushlightuserdata :: "cdata \<Rightarrow> world \<Rightarrow> world" where
  "lua_pushlightuserdata p = lua_push (LLightuserdata p)"

definition lua_pop :: "nat \<Rightarrow> world \<Rightarrow> world" where
  "lua_pop n w = w\<lparr>stack := take (length (stack w) - n) (stack w)\<rparr>"

definition lua_isnoneornil :: "world \<Rightarrow> int \<Rightarrow> bool" where
  "lua_isnoneornil w i = (index_value w i = None \<or> index_value w i = Some LNil)"

definition lua_isboolean :: "world \<Rightarrow> int \<Rightarrow> bool" where
  "lua_isboolean w i = (case index_value w i of Some (LBoolean _) \<Rightarrow> True | _ \<Rightarrow> False)"

definition lua_toboolean :: "world \<Rightarrow> int \<Rightarrow> bool" where
  "lua_toboolean w i =
     (case index_value w i of
        None \<Rightarrow> False
      | Some LNil \<Rightarrow> False
      | Some (LBoolean b) \<Rightarrow> b
      | Some _ \<Rightarrow> True)"

text \<open>
  \<^verbatim>\<open>lua_isstring\<close> is true of a string and of a number (a number is always
  convertible to a string).
\<close>

definition lua_isstring :: "world \<Rightarrow> int \<Rightarrow> bool" where
  "lua_isstring w i =
     (case index_value w i of
        Some (LString _) \<Rightarrow> True
      | Some (LNumber _) \<Rightarrow> True
      | _ \<Rightarrow> False)"

definition lua_isfunction :: "world \<Rightarrow> int \<Rightarrow> bool" where
  "lua_isfunction w i =
     (case index_value w i of
        Some (LFunction _) \<Rightarrow> True
      | Some (LCFunction _) \<Rightarrow> True
      | _ \<Rightarrow> False)"

text \<open>The decimal text of an integer, as the interpreter writes a number.\<close>

fun digits10 :: "nat \<Rightarrow> string" where
  "digits10 n =
     (if n < 10 then [char_of (48 + n)]
      else digits10 (n div 10) @ [char_of (48 + n mod 10)])"

definition lua_number2str :: "int \<Rightarrow> string" where
  "lua_number2str n = (if n < 0 then CHR ''-'' # digits10 (nat (- n)) else digits10 (nat n))"

text \<open>
  \<^verbatim>\<open>lua_tolstring\<close>: the bytes of a string; a number is converted, and the stack
  slot is changed to the string; any other value gives a null pointer.
\<close>

definition lua_tolstring :: "world \<Rightarrow> int \<Rightarrow> string option \<times> world" where
  "lua_tolstring w i =
     (case index_value w i of
        Some (LString s) \<Rightarrow> (Some s, w)
      | Some (LNumber n) \<Rightarrow>
          (Some (lua_number2str n),
           w\<lparr>stack := (stack w)
              [nat (if 0 < i then i - 1 else int (length (stack w)) + i) :=
                 LString (lua_number2str n)]\<rparr>)
      | _ \<Rightarrow> (None, w))"

text \<open>\<^verbatim>\<open>lua_tointeger\<close>: 0 when the value is not a number nor a string that converts.\<close>

definition lua_tointegerx :: "environment \<Rightarrow> world \<Rightarrow> int \<Rightarrow> int option" where
  "lua_tointegerx E w i =
     (case index_value w i of
        Some (LNumber n) \<Rightarrow> Some n
      | Some (LString s) \<Rightarrow> str2number E s
      | _ \<Rightarrow> None)"

definition lua_tointeger :: "environment \<Rightarrow> world \<Rightarrow> int \<Rightarrow> int" where
  "lua_tointeger E w i = (case lua_tointegerx E w i of Some n \<Rightarrow> n | None \<Rightarrow> 0)"

definition lua_touserdata :: "world \<Rightarrow> int \<Rightarrow> cdata option" where
  "lua_touserdata w i =
     (case index_value w i of Some (LLightuserdata p) \<Rightarrow> Some p | _ \<Rightarrow> None)"

text \<open>The auxiliary library's argument checks; a failed check raises.\<close>

definition luaL_checklstring :: "world \<Rightarrow> nat \<Rightarrow> (lua_error + string) \<times> world" where
  "luaL_checklstring w i =
     (case lua_tolstring w (int i) of
        (None, w') \<Rightarrow> (Inl (Type_error i ''string''), w')
      | (Some s, w') \<Rightarrow> (Inr s, w'))"

text \<open>
  \<^verbatim>\<open>luaL_optstring(L, i, NULL)\<close>: a null pointer (\<open>None\<close>) when the argument is
  absent or nil, the C string of the argument otherwise.
\<close>

definition luaL_optstring :: "world \<Rightarrow> nat \<Rightarrow> (lua_error + string option) \<times> world" where
  "luaL_optstring w i =
     (if lua_isnoneornil w (int i) then (Inr None, w)
      else (case luaL_checklstring w i of
              (Inl e, w') \<Rightarrow> (Inl e, w')
            | (Inr s, w') \<Rightarrow> (Inr (Some (c_str s)), w')))"

definition luaL_checkinteger :: "environment \<Rightarrow> world \<Rightarrow> nat \<Rightarrow> lua_error + int" where
  "luaL_checkinteger E w i =
     (case lua_tointegerx E w (int i) of
        None \<Rightarrow> Inl (Type_error i ''number'')
      | Some n \<Rightarrow> Inr n)"

definition luaL_optinteger :: "environment \<Rightarrow> world \<Rightarrow> nat \<Rightarrow> int \<Rightarrow> lua_error + int" where
  "luaL_optinteger E w i d =
     (if lua_isnoneornil w (int i) then Inr d else luaL_checkinteger E w i)"

text \<open>
  The binding stores the \<^verbatim>\<open>lua_Integer\<close> these functions return in variables of
  type \<^verbatim>\<open>int\<close>, as in \<^verbatim>\<open>int timeout = luaL_optinteger(L, 2, -1)\<close>.  The
  conversion keeps a value in the range of a 32-bit \<^verbatim>\<open>int\<close> and reduces every other
  value modulo \<open>2 ^ 32\<close> into that range (the result C leaves to the implementation;
  this is the one gcc and clang define).
\<close>

definition c_int :: "int \<Rightarrow> int" where
  "c_int n = (n + 2 ^ 31) mod 2 ^ 32 - 2 ^ 31"

text \<open>
  \<^verbatim>\<open>luaL_checkudata(L, i, MOSQ_META_CTX)\<close>: the address of the block when the value
  is a full userdata whose metatable is the registered one.
\<close>

definition luaL_checkudata :: "world \<Rightarrow> nat \<Rightarrow> lua_error + nat" where
  "luaL_checkudata w i =
     (case index_value w (int i) of
        Some (LUserdata a) \<Rightarrow>
          (if metatables w (Of_udata a) = Some Meta_ctx then Inr a
           else Inl (Type_error i ''mosquitto.ctx''))
      | _ \<Rightarrow> Inl (Type_error i ''mosquitto.ctx''))"

text \<open>
  References into the registry.  \<^verbatim>\<open>luaL_ref\<close> pops the value on top of the stack
  and returns a key that is not in use (\<^verbatim>\<open>LUA_REFNIL\<close> for nil);
  \<^verbatim>\<open>luaL_unref\<close> does nothing for a negative reference and otherwise removes the
  entry through the Lua state it is given (\<open>None\<close>: that pointer is null, the
  behaviour is undefined); \<^verbatim>\<open>lua_rawgeti\<close> pushes the entry, nil when there is none.
\<close>

definition fresh_ref :: "(int \<times> lua_value) list \<Rightarrow> int" where
  "fresh_ref r = fold max (map fst r) 0 + 1"

definition luaL_ref :: "world \<Rightarrow> int \<times> world" where
  "luaL_ref w =
     (let v = last (stack w); w' = lua_pop 1 w in
      if v = LNil then (LUA_REFNIL, w')
      else (let k = fresh_ref (registry w) in (k, w'\<lparr>registry := (k, v) # registry w\<rparr>)))"

definition luaL_unref :: "lua_State_ptr \<Rightarrow> int \<Rightarrow> world \<Rightarrow> world option" where
  "luaL_unref L k w =
     (if 0 \<le> k then
        (case L of
           NULL \<Rightarrow> None
         | Lua_state \<Rightarrow> Some (w\<lparr>registry := filter (\<lambda>e. fst e \<noteq> k) (registry w)\<rparr>))
      else Some w)"

definition registry_get :: "world \<Rightarrow> int \<Rightarrow> lua_value" where
  "registry_get w k = (case map_of (registry w) k of None \<Rightarrow> LNil | Some v \<Rightarrow> v)"

definition lua_rawgeti :: "int \<Rightarrow> world \<Rightarrow> world" where
  "lua_rawgeti k w = lua_push (registry_get w k) w"

definition lua_newtable :: "world \<Rightarrow> world" where
  "lua_newtable w =
     (lua_push (LTable (Fresh (next_table w))) w)\<lparr>next_table := Suc (next_table w)\<rparr>"

text \<open>
  \<^verbatim>\<open>lua_setmetatable(L, i)\<close> pops a table and makes it the metatable of the value
  at index \<open>i\<close> (an index of the stack with the table still on it).
\<close>

definition lua_setmetatable :: "int \<Rightarrow> world \<Rightarrow> world" where
  "lua_setmetatable i w =
     (case (index_value w i, last (stack w)) of
        (Some v, LTable t) \<Rightarrow>
          (lua_pop 1 w)\<lparr>metatables := (metatables w)(meta_owner_of v := Some t)\<rparr>
      | _ \<Rightarrow> lua_pop 1 w)"

definition lua_newuserdata :: "world \<Rightarrow> nat \<times> world" where
  "lua_newuserdata w =
     (next_udata w, (lua_push (LUserdata (next_udata w)) w)\<lparr>next_udata := Suc (next_udata w)\<rparr>)"

text \<open>
  Calling the value below \<open>nargs\<close> arguments.  A Lua function is run through its
  behaviour and recorded; it leaves no result (the binding always asks for none).
  The error raised for a value that is not callable is a message.
\<close>

definition call_error :: "lua_value \<Rightarrow> lua_value" where
  "call_error f = LString (''attempt to call a '' @ lua_typename (lua_type_of f) @ '' value'')"

definition callee :: "nat \<Rightarrow> world \<Rightarrow> lua_value" where
  "callee nargs w = stack w ! (length (stack w) - nargs - 1)"

definition call_args :: "nat \<Rightarrow> world \<Rightarrow> lua_value list" where
  "call_args nargs w = drop (length (stack w) - nargs) (stack w)"

definition call_base :: "nat \<Rightarrow> world \<Rightarrow> lua_value list" where
  "call_base nargs w = take (length (stack w) - nargs - 1) (stack w)"

text \<open>
  \<^verbatim>\<open>lua_call\<close> is unprotected: an error (\<open>Some e\<close>) leaves the C function that made
  the call and travels to the enclosing protected call.  The binding uses it for hooks
  only; its own C functions are called by \<^verbatim>\<open>lua_pcall\<close> below.
\<close>

definition lua_call :: "behaviour \<Rightarrow> nat \<Rightarrow> world \<Rightarrow> lua_value option \<times> world" where
  "lua_call H nargs w =
     (case callee nargs w of
        LFunction k \<Rightarrow>
          (H k (call_args nargs w),
           w\<lparr>stack := call_base nargs w, calls := calls w @ [(k, call_args nargs w)]\<rparr>)
      | f \<Rightarrow> (Some (call_error f), w))"

subsection \<open>The C library's string functions\<close>

fun strcmp :: "string \<Rightarrow> string \<Rightarrow> int" where
  "strcmp [] [] = 0"
| "strcmp [] (b # bs) = -1"
| "strcmp (a # as) [] = 1"
| "strcmp (a # as) (b # bs) =
     (if a = b then strcmp as bs
      else if (of_char a :: nat) < of_char b then -1 else 1)"

text \<open>\<^verbatim>\<open>strstr\<close>: the offset of the first occurrence of the needle, if there is one.\<close>

fun strstr :: "string \<Rightarrow> string \<Rightarrow> nat option" where
  "strstr [] needle = (if needle = [] then Some 0 else None)"
| "strstr (c # cs) needle =
     (if take (length needle) (c # cs) = needle then Some 0
      else map_option Suc (strstr cs needle))"

section \<open>The binding\<close>

subsection \<open>The shared status handler\<close>

text \<open>\<^verbatim>\<open>mosq__pstatus\<close>: what is pushed, and the number of results returned.\<close>

definition mosq__pstatus :: "environment \<Rightarrow> mosq_err_t \<Rightarrow> world \<Rightarrow> nat outcome \<times> world" where
  "mosq__pstatus E mosq_errno w =
     (case mosq_errno of
        MOSQ_ERR_SUCCESS \<Rightarrow> (Returns 1, lua_pushboolean True w)
      | MOSQ_ERR_INVAL \<Rightarrow> (Raises (Lua_error (mosquitto_strerror E mosq_errno)), w)
      | MOSQ_ERR_NOMEM \<Rightarrow> (Raises (Lua_error (mosquitto_strerror E mosq_errno)), w)
      | MOSQ_ERR_PROTOCOL \<Rightarrow> (Raises (Lua_error (mosquitto_strerror E mosq_errno)), w)
      | MOSQ_ERR_NOT_SUPPORTED \<Rightarrow> (Raises (Lua_error (mosquitto_strerror E mosq_errno)), w)
      | MOSQ_ERR_NO_CONN \<Rightarrow>
          (Returns 3,
           lua_pushstring (mosquitto_strerror E mosq_errno)
             (lua_pushinteger (mosq_err_value E mosq_errno) (lua_pushnil w)))
      | MOSQ_ERR_CONN_LOST \<Rightarrow>
          (Returns 3,
           lua_pushstring (mosquitto_strerror E mosq_errno)
             (lua_pushinteger (mosq_err_value E mosq_errno) (lua_pushnil w)))
      | MOSQ_ERR_PAYLOAD_SIZE \<Rightarrow>
          (Returns 3,
           lua_pushstring (mosquitto_strerror E mosq_errno)
             (lua_pushinteger (mosq_err_value E mosq_errno) (lua_pushnil w)))
      | MOSQ_ERR_ERRNO \<Rightarrow>
          (Returns 3,
           lua_pushstring (strerror E (errno E))
             (lua_pushinteger (errno E) (lua_pushnil w)))
      | MOSQ_ERR_OTHER _ \<Rightarrow> (Returns 0, w))"

text \<open>
  What Lua receives from a C function: the values on top of the stack, as many as the
  function says it returns.
\<close>

definition results :: "nat outcome \<times> world \<Rightarrow> lua_value list outcome" where
  "results r =
     (case r of
        (Returns n, w) \<Rightarrow> Returns (drop (length (stack w) - n) (stack w))
      | (Raises e, w) \<Rightarrow> Raises e
      | (Undefined, w) \<Rightarrow> Undefined)"

subsection \<open>The return paths of the operations\<close>

text \<open>
  Every operation below ends in one of three ways once the codec has returned its
  code \<open>rc\<close>: most hand \<open>rc\<close> to \<^verbatim>\<open>mosq__pstatus\<close>; \<^verbatim>\<open>ctx_publish\<close>,
  \<^verbatim>\<open>ctx_subscribe\<close> and \<^verbatim>\<open>ctx_unsubscribe\<close> do so only when \<open>rc\<close> is not success
  and push the message id otherwise; \<^verbatim>\<open>mosq_topic_matches_sub\<close> does so only when
  \<open>rc\<close> is not success and pushes the result of the match otherwise.
\<close>

datatype operation =
    Topic_matches_sub
  | Reinitialise
  | Will_set
  | Will_clear
  | Login_set
  | Tls_opts_set
  | Version_set
  | Tls_set
  | Tls_insecure_set
  | Tls_psk_set
  | Threaded_set
  | Connect
  | Connect_async
  | Reconnect
  | Reconnect_delay_set
  | Reconnect_async
  | Disconnect
  | Publish
  | Subscribe
  | Unsubscribe
  | Loop
  | Loop_forever
  | Loop_start
  | Loop_stop
  | Loop_read
  | Loop_write
  | Loop_misc

definition return_mid :: "environment \<Rightarrow> mosq_err_t \<Rightarrow> int \<Rightarrow> world \<Rightarrow> nat outcome \<times> world" where
  "return_mid E rc m w =
     (if rc \<noteq> MOSQ_ERR_SUCCESS then mosq__pstatus E rc w
      else (Returns 1, lua_pushinteger m w))"

definition return_match :: "environment \<Rightarrow> mosq_err_t \<Rightarrow> bool \<Rightarrow> world \<Rightarrow> nat outcome \<times> world" where
  "return_match E rc result w =
     (if rc \<noteq> MOSQ_ERR_SUCCESS then mosq__pstatus E rc w
      else (Returns 1, lua_pushboolean result w))"

text \<open>
  \<open>m\<close> is the message id the codec stored for a publish, subscribe or unsubscribe,
  \<open>result\<close> the outcome of the topic match.
\<close>

fun op_return ::
  "environment \<Rightarrow> operation \<Rightarrow> mosq_err_t \<Rightarrow> int \<Rightarrow> bool \<Rightarrow> world \<Rightarrow> nat outcome \<times> world" where
  "op_return E Publish rc m result w = return_mid E rc m w"
| "op_return E Subscribe rc m result w = return_mid E rc m w"
| "op_return E Unsubscribe rc m result w = return_mid E rc m w"
| "op_return E Topic_matches_sub rc m result w = return_match E rc result w"
| "op_return E _ rc m result w = mosq__pstatus E rc w"

subsection \<open>Dispatch of the codec's events to the Lua hooks\<close>

definition CONN_ACCEPT :: int where "CONN_ACCEPT = 0"
definition CONN_REF_BAD_PROTOCOL :: int where "CONN_REF_BAD_PROTOCOL = 1"
definition CONN_REF_BAD_ID :: int where "CONN_REF_BAD_ID = 2"
definition CONN_REF_SERVER_NOAVAIL :: int where "CONN_REF_SERVER_NOAVAIL = 3"
definition CONN_REF_BAD_LOGIN :: int where "CONN_REF_BAD_LOGIN = 4"
definition CONN_REF_NO_AUTH :: int where "CONN_REF_NO_AUTH = 5"
definition CONN_REF_BAD_TLS :: int where "CONN_REF_BAD_TLS = 6"

text \<open>
  The four \<^verbatim>\<open>*_safe\<close> functions run inside a protected call, on a stack that holds
  their arguments.  Their result is that of the unprotected \<^verbatim>\<open>lua_call\<close> they end
  with: \<open>Some e\<close> when the hook raised \<open>e\<close>.  The outer \<open>option\<close> is \<open>None\<close> when the
  behaviour is undefined in C.
\<close>

definition ctx_on_connect_safe ::
  "environment \<Rightarrow> behaviour \<Rightarrow> world \<Rightarrow> (lua_value option \<times> world) option" where
  "ctx_on_connect_safe E H w =
     (let ref = lua_tointeger E w 1;
          rc = lua_tointeger E w 2;
          success = (rc = CONN_ACCEPT);
          str =
            (if rc = CONN_ACCEPT then ''connection accepted''
             else if rc = CONN_REF_BAD_PROTOCOL then
               ''connection refused - incorrect protocol version''
             else if rc = CONN_REF_BAD_ID then
               ''connection refused - invalid client identifier''
             else if rc = CONN_REF_SERVER_NOAVAIL then
               ''connection refused - server unavailable''
             else if rc = CONN_REF_BAD_LOGIN then
               ''connection refused - bad username or password''
             else if rc = CONN_REF_NO_AUTH then
               ''connection refused - not authorised''
             else if rc = CONN_REF_BAD_TLS then
               ''connection refused - TLS error''
             else ''reserved for future use'')
      in Some (lua_call H 3
           (lua_pushstring str (lua_pushinteger rc (lua_pushboolean success
             (lua_rawgeti ref w))))))"

definition ctx_on_disconnect_safe ::
  "environment \<Rightarrow> behaviour \<Rightarrow> world \<Rightarrow> (lua_value option \<times> world) option" where
  "ctx_on_disconnect_safe E H w =
     (let ref = lua_tointeger E w 1;
          rc = lua_tointeger E w 2;
          success = (if rc \<noteq> 0 then False else True);
          str = (if rc \<noteq> 0 then ''unexpected disconnect'' else ''client-initiated disconnect'')
      in Some (lua_call H 3
           (lua_pushstring str (lua_pushinteger rc (lua_pushboolean success
             (lua_rawgeti ref w))))))"

text \<open>A message pointer that is not one is dereferenced all the same.\<close>

definition ctx_on_message_safe ::
  "environment \<Rightarrow> behaviour \<Rightarrow> world \<Rightarrow> (lua_value option \<times> world) option" where
  "ctx_on_message_safe E H w =
     (let ref = lua_tointeger E w 1 in
      case lua_touserdata w 2 of
        Some (Msg msg) \<Rightarrow>
          Some (lua_call H 5
            (lua_pushboolean (retain msg) (lua_pushinteger (qos msg)
              (lua_pushlstring (payload msg) (lua_pushstring (topic msg)
                (lua_pushinteger (mid msg) (lua_rawgeti ref w)))))))
      | _ \<Rightarrow> None)"

text \<open>\<^verbatim>\<open>lua_pushstring\<close> pushes nil for a null pointer.\<close>

definition ctx_on_log_safe ::
  "environment \<Rightarrow> behaviour \<Rightarrow> world \<Rightarrow> (lua_value option \<times> world) option" where
  "ctx_on_log_safe E H w =
     (let ref = lua_tointeger E w 1;
          level = lua_tointeger E w 2;
          w1 = lua_pushinteger level (lua_rawgeti ref w)
      in Some (lua_call H 2
           (case lua_touserdata w 3 of
              Some (Cstr str) \<Rightarrow> lua_pushstring str w1
            | _ \<Rightarrow> lua_pushnil w1)))"

fun run_cfunction ::
  "environment \<Rightarrow> behaviour \<Rightarrow> cfunction \<Rightarrow> world \<Rightarrow> (lua_value option \<times> world) option" where
  "run_cfunction E H Ctx_on_connect_safe w = ctx_on_connect_safe E H w"
| "run_cfunction E H Ctx_on_disconnect_safe w = ctx_on_disconnect_safe E H w"
| "run_cfunction E H Ctx_on_message_safe w = ctx_on_message_safe E H w"
| "run_cfunction E H Ctx_on_log_safe w = ctx_on_log_safe E H w"

text \<open>
  \<^verbatim>\<open>lua_pcall(L, nargs, 0, 0)\<close>: the callee and its arguments are removed from the
  stack; an error is caught, its value is pushed, and the status is not 0.  A C
  function runs on a stack of its own that holds the arguments.
\<close>

definition lua_pcall ::
  "environment \<Rightarrow> behaviour \<Rightarrow> nat \<Rightarrow> world \<Rightarrow> (int \<times> world) option" where
  "lua_pcall E H nargs w =
     (case callee nargs w of
        LCFunction f \<Rightarrow>
          (case run_cfunction E H f (w\<lparr>stack := call_args nargs w\<rparr>) of
             None \<Rightarrow> None
           | Some (None, w') \<Rightarrow> Some (0, w'\<lparr>stack := call_base nargs w\<rparr>)
           | Some (Some e, w') \<Rightarrow> Some (LUA_ERRRUN, w'\<lparr>stack := call_base nargs w @ [e]\<rparr>))
      | _ \<Rightarrow>
          (case lua_call H nargs w of
             (None, w') \<Rightarrow> Some (0, w')
           | (Some e, w') \<Rightarrow> Some (LUA_ERRRUN, w'\<lparr>stack := call_base nargs w @ [e]\<rparr>)))"

text \<open>The tail every callback shares: pop the error message when the call failed.\<close>

definition pcall_and_pop ::
  "environment \<Rightarrow> behaviour \<Rightarrow> nat \<Rightarrow> world \<Rightarrow> world option" where
  "pcall_and_pop E H nargs w =
     (case lua_pcall E H nargs w of
        None \<Rightarrow> None
      | Some (st, w') \<Rightarrow> Some (if st \<noteq> 0 then lua_pop 1 w' else w'))"

text \<open>
  The C callbacks registered with the codec.  \<open>obj\<close> is the address of the context;
  the Lua state they work on is \<^verbatim>\<open>ctx->L\<close>, and a null \<^verbatim>\<open>ctx->L\<close> is handed to the
  Lua API as it is (\<open>None\<close>: undefined behaviour).
\<close>

definition ctx_on_connect ::
  "environment \<Rightarrow> behaviour \<Rightarrow> nat \<Rightarrow> int \<Rightarrow> world \<Rightarrow> world option" where
  "ctx_on_connect E H obj rc w =
     (let ctx = udata w obj in
      case ctx_L ctx of
        NULL \<Rightarrow> None
      | Lua_state \<Rightarrow>
          pcall_and_pop E H 2
            (lua_pushinteger rc (lua_pushinteger (on_connect ctx)
              (lua_pushcfunction Ctx_on_connect_safe w))))"

definition ctx_on_disconnect ::
  "environment \<Rightarrow> behaviour \<Rightarrow> nat \<Rightarrow> int \<Rightarrow> world \<Rightarrow> world option" where
  "ctx_on_disconnect E H obj rc w =
     (let ctx = udata w obj in
      case ctx_L ctx of
        NULL \<Rightarrow> None
      | Lua_state \<Rightarrow>
          pcall_and_pop E H 2
            (lua_pushinteger rc (lua_pushinteger (on_disconnect ctx)
              (lua_pushcfunction Ctx_on_disconnect_safe w))))"

definition ctx_on_publish ::
  "environment \<Rightarrow> behaviour \<Rightarrow> nat \<Rightarrow> int \<Rightarrow> world \<Rightarrow> world option" where
  "ctx_on_publish E H obj m w =
     (let ctx = udata w obj in
      case ctx_L ctx of
        NULL \<Rightarrow> None
      | Lua_state \<Rightarrow>
          pcall_and_pop E H 1 (lua_pushinteger m (lua_rawgeti (on_publish ctx) w)))"

definition ctx_on_message ::
  "environment \<Rightarrow> behaviour \<Rightarrow> nat \<Rightarrow> mosquitto_message \<Rightarrow> world \<Rightarrow> world option" where
  "ctx_on_message E H obj msg w =
     (let ctx = udata w obj in
      case ctx_L ctx of
        NULL \<Rightarrow> None
      | Lua_state \<Rightarrow>
          pcall_and_pop E H 2
            (lua_pushlightuserdata (Msg msg) (lua_pushinteger (on_message ctx)
              (lua_pushcfunction Ctx_on_message_safe w))))"

text \<open>
  \<open>granted_qos\<close> is the array of \<^verbatim>\<open>qos_count\<close> granted levels.  When the stack
  cannot grow the callback returns without calling the hook.
\<close>

definition ctx_on_subscribe ::
  "environment \<Rightarrow> behaviour \<Rightarrow> nat \<Rightarrow> int \<Rightarrow> int list \<Rightarrow> world \<Rightarrow> world option" where
  "ctx_on_subscribe E H obj m granted_qos w =
     (let ctx = udata w obj; qos_count = length granted_qos in
      case ctx_L ctx of
        NULL \<Rightarrow> None
      | Lua_state \<Rightarrow>
          if \<not> lua_checkstack E (qos_count + 2) then Some w
          else pcall_and_pop E H (qos_count + 1)
                 (fold lua_pushinteger granted_qos
                   (lua_pushinteger m (lua_rawgeti (on_subscribe ctx) w))))"

definition ctx_on_unsubscribe ::
  "environment \<Rightarrow> behaviour \<Rightarrow> nat \<Rightarrow> int \<Rightarrow> world \<Rightarrow> world option" where
  "ctx_on_unsubscribe E H obj m w =
     (let ctx = udata w obj in
      case ctx_L ctx of
        NULL \<Rightarrow> None
      | Lua_state \<Rightarrow>
          pcall_and_pop E H 1 (lua_pushinteger m (lua_rawgeti (on_unsubscribe ctx) w)))"

definition ctx_on_log ::
  "environment \<Rightarrow> behaviour \<Rightarrow> nat \<Rightarrow> int \<Rightarrow> string \<Rightarrow> world \<Rightarrow> world option" where
  "ctx_on_log E H obj level str w =
     (let ctx = udata w obj in
      case ctx_L ctx of
        NULL \<Rightarrow> None
      | Lua_state \<Rightarrow>
          pcall_and_pop E H 3
            (lua_pushlightuserdata (Cstr str) (lua_pushinteger level
              (lua_pushinteger (on_log ctx) (lua_pushcfunction Ctx_on_log_safe w)))))"

text \<open>
  An event is one invocation of a registered C callback by the codec; the codec makes
  them, one after the other, while one of its loop functions runs.
\<close>

datatype event =
    Ev_connect int
  | Ev_disconnect int
  | Ev_publish int
  | Ev_message mosquitto_message
  | Ev_subscribe int "int list"
  | Ev_unsubscribe int
  | Ev_log int string

fun dispatch :: "environment \<Rightarrow> behaviour \<Rightarrow> nat \<Rightarrow> event \<Rightarrow> world \<Rightarrow> world option" where
  "dispatch E H obj (Ev_connect rc) w = ctx_on_connect E H obj rc w"
| "dispatch E H obj (Ev_disconnect rc) w = ctx_on_disconnect E H obj rc w"
| "dispatch E H obj (Ev_publish m) w = ctx_on_publish E H obj m w"
| "dispatch E H obj (Ev_message msg) w = ctx_on_message E H obj msg w"
| "dispatch E H obj (Ev_subscribe m granted_qos) w = ctx_on_subscribe E H obj m granted_qos w"
| "dispatch E H obj (Ev_unsubscribe m) w = ctx_on_unsubscribe E H obj m w"
| "dispatch E H obj (Ev_log level str) w = ctx_on_log E H obj level str w"

fun run_events :: "environment \<Rightarrow> behaviour \<Rightarrow> nat \<Rightarrow> event list \<Rightarrow> world \<Rightarrow> world option" where
  "run_events E H obj [] w = Some w"
| "run_events E H obj (ev # evs) w =
     (case dispatch E H obj ev w of
        None \<Rightarrow> None
      | Some w' \<Rightarrow> run_events E H obj evs w')"

subsection \<open>Creating, checking and destroying an instance\<close>

definition ctx_update :: "nat \<Rightarrow> (ctx_t \<Rightarrow> ctx_t) \<Rightarrow> world \<Rightarrow> world" where
  "ctx_update a f w = w\<lparr>udata := (udata w)(a := f (udata w a))\<rparr>"

definition codec_call :: "codec_call \<Rightarrow> world \<Rightarrow> world" where
  "codec_call c w = w\<lparr>codec_calls := codec_calls w @ [c]\<rparr>"

definition ctx__on_init :: "ctx_t \<Rightarrow> ctx_t" where
  "ctx__on_init ctx =
     ctx\<lparr>on_connect := LUA_REFNIL, on_disconnect := LUA_REFNIL, on_publish := LUA_REFNIL,
         on_message := LUA_REFNIL, on_subscribe := LUA_REFNIL, on_unsubscribe := LUA_REFNIL,
         on_log := LUA_REFNIL\<rparr>"

text \<open>
  \<^verbatim>\<open>ctx__on_clear\<close> releases the seven references in turn, each through
  \<^verbatim>\<open>ctx->L\<close>.
\<close>

definition ctx__on_clear :: "ctx_t \<Rightarrow> world \<Rightarrow> world option" where
  "ctx__on_clear ctx w =
     fold (\<lambda>k r. Option.bind r (luaL_unref (ctx_L ctx) k))
       [on_connect ctx, on_disconnect ctx, on_publish ctx, on_message ctx,
        on_subscribe ctx, on_unsubscribe ctx, on_log ctx]
       (Some w)"

definition luaL_getmetatable :: "world \<Rightarrow> world" where
  "luaL_getmetatable w = lua_push (LTable Meta_ctx) w"

text \<open>
  \<^verbatim>\<open>mosq_new\<close>.  \<open>h\<close> is what \<^verbatim>\<open>mosquitto_new\<close> returns: a handle, or \<open>None\<close>
  for a null pointer.
\<close>

definition mosq_new :: "environment \<Rightarrow> nat option \<Rightarrow> world \<Rightarrow> nat outcome \<times> world" where
  "mosq_new E h w =
     (case luaL_optstring w 1 of
        (Inl e, w0) \<Rightarrow> (Raises e, w0)
      | (Inr client_id, w0) \<Rightarrow>
          (let clean_session = (if lua_isboolean w0 2 then lua_toboolean w0 2 else True) in
           if client_id = None \<and> \<not> clean_session then
             (Raises (Arg_error 2 ''if 'id' is nil then 'clean session' must be true''), w0)
           else
             (case lua_newuserdata w0 of
                (ctx, w1) \<Rightarrow>
                  (let w2 = codec_call (Mosquitto_new client_id clean_session ctx) w1 in
                   case h of
                     None \<Rightarrow> (Raises (Lua_error (strerror E (errno E))), w2)
                   | Some m \<Rightarrow>
                       (Returns 1,
                        lua_setmetatable (- 2) (luaL_getmetatable
                          (ctx_update ctx ctx__on_init
                            (ctx_update ctx (\<lambda>c. c\<lparr>ctx_L := NULL\<rparr>)
                              (ctx_update ctx (\<lambda>c. c\<lparr>mosq := m\<rparr>) w2)))))))))"

definition ctx_check :: "world \<Rightarrow> nat \<Rightarrow> lua_error + nat" where
  "ctx_check w i = luaL_checkudata w i"

definition ctx_destroy :: "environment \<Rightarrow> world \<Rightarrow> nat outcome \<times> world" where
  "ctx_destroy E w =
     (case ctx_check w 1 of
        Inl e \<Rightarrow> (Raises e, w)
      | Inr ctx \<Rightarrow>
          (let w1 = codec_call (Mosquitto_destroy (mosq (udata w ctx))) w in
           case ctx__on_clear (udata w1 ctx) w1 of
             None \<Rightarrow> (Undefined, w1)
           | Some w2 \<Rightarrow>
               mosq__pstatus E MOSQ_ERR_SUCCESS (lua_setmetatable (- 2) (lua_newtable w2))))"

text \<open>\<^verbatim>\<open>ctx_reinitialise\<close>; \<open>rc\<close> is what \<^verbatim>\<open>mosquitto_reinitialise\<close> returns.\<close>

definition ctx_reinitialise :: "environment \<Rightarrow> mosq_err_t \<Rightarrow> world \<Rightarrow> nat outcome \<times> world" where
  "ctx_reinitialise E rc w =
     (case ctx_check w 1 of
        Inl e \<Rightarrow> (Raises e, w)
      | Inr ctx \<Rightarrow>
          (case luaL_optstring w 1 of
             (Inl e, w0) \<Rightarrow> (Raises e, w0)
           | (Inr client_id, w0) \<Rightarrow>
               (let clean_session = (if lua_isboolean w0 2 then lua_toboolean w0 2 else True) in
                if client_id = None \<and> \<not> clean_session then
                  (Raises (Arg_error 3 ''if 'id' is nil then 'clean session' must be true''), w0)
                else
                  (let w1 = codec_call
                        (Mosquitto_reinitialise (mosq (udata w0 ctx)) client_id clean_session ctx) w0
                   in case ctx__on_clear (udata w1 ctx) w1 of
                        None \<Rightarrow> (Undefined, w1)
                      | Some w2 \<Rightarrow> mosq__pstatus E rc (ctx_update ctx ctx__on_init w2)))))"

subsection \<open>Configuration: the protocol version\<close>

text \<open>
  \<^verbatim>\<open>ctx_version_set\<close>; \<open>rc\<close> is what \<^verbatim>\<open>mosquitto_opts_set\<close> returns.  The token
  goes to \<^verbatim>\<open>strcmp\<close> as \<^verbatim>\<open>luaL_optstring\<close> returned it, a null pointer included.
\<close>

definition ctx_version_set :: "environment \<Rightarrow> mosq_err_t \<Rightarrow> world \<Rightarrow> nat outcome \<times> world" where
  "ctx_version_set E rc w =
     (case ctx_check w 1 of
        Inl e \<Rightarrow> (Raises e, w)
      | Inr ctx \<Rightarrow>
          (case luaL_optstring w 2 of
             (Inl e, w0) \<Rightarrow> (Raises e, w0)
           | (Inr None, w0) \<Rightarrow> (Undefined, w0)
           | (Inr (Some mqtt_version), w0) \<Rightarrow>
               (let protocol_version =
                      (if strcmp mqtt_version ''mqttv31'' = 0 then MQTT_PROTOCOL_V31
                       else if strcmp mqtt_version ''mqttv311'' = 0 then MQTT_PROTOCOL_V311
                       else MQTT_PROTOCOL_V31)
                in mosq__pstatus E rc
                     (codec_call
                        (Mosquitto_opts_set_protocol_version (mosq (udata w0 ctx)) protocol_version)
                        w0))))"

subsection \<open>Driving the loop\<close>

text \<open>
  \<^verbatim>\<open>mosq_loop\<close>.  While \<^verbatim>\<open>mosquitto_loop\<close> or \<^verbatim>\<open>mosquitto_loop_forever\<close> runs the
  codec reports the events \<open>evs\<close>; \<open>rc\<close> is the code it returns.  The function is
  embedded for the calls in which the codec returns.
\<close>

definition mosq_loop ::
  "environment \<Rightarrow> behaviour \<Rightarrow> bool \<Rightarrow> event list \<Rightarrow> mosq_err_t \<Rightarrow> world \<Rightarrow> nat outcome \<times> world" where
  "mosq_loop E H forever evs rc w =
     (case ctx_check w 1 of
        Inl e \<Rightarrow> (Raises e, w)
      | Inr ctx \<Rightarrow>
          (case luaL_optinteger E w 2 (- 1) of
             Inl e \<Rightarrow> (Raises e, w)
           | Inr n2 \<Rightarrow>
               (case luaL_optinteger E w 3 1 of
                  Inl e \<Rightarrow> (Raises e, w)
                | Inr n3 \<Rightarrow>
                    (let timeout = c_int n2;
                         max_packets = c_int n3;
                         w1 = ctx_update ctx (\<lambda>c. c\<lparr>ctx_L := Lua_state\<rparr>) w;
                         w2 = codec_call
                           (if forever then
                              Mosquitto_loop_forever (mosq (udata w1 ctx)) timeout max_packets
                            else Mosquitto_loop (mosq (udata w1 ctx)) timeout max_packets) w1
                     in case run_events E H ctx evs w2 of
                          None \<Rightarrow> (Undefined, w2)
                        | Some w3 \<Rightarrow>
                            mosq__pstatus E rc
                              (ctx_update ctx (\<lambda>c. c\<lparr>ctx_L := NULL\<rparr>) w3)))))"

definition ctx_loop ::
  "environment \<Rightarrow> behaviour \<Rightarrow> event list \<Rightarrow> mosq_err_t \<Rightarrow> world \<Rightarrow> nat outcome \<times> world" where
  "ctx_loop E H evs rc w = mosq_loop E H False evs rc w"

definition ctx_loop_forever ::
  "environment \<Rightarrow> behaviour \<Rightarrow> event list \<Rightarrow> mosq_err_t \<Rightarrow> world \<Rightarrow> nat outcome \<times> world" where
  "ctx_loop_forever E H evs rc w = mosq_loop E H True evs rc w"

text \<open>
  \<^verbatim>\<open>ctx_loop_start\<close> returns as soon as the codec has started its thread; what that
  thread does afterwards is not part of the call.
\<close>

definition ctx_loop_start :: "environment \<Rightarrow> mosq_err_t \<Rightarrow> world \<Rightarrow> nat outcome \<times> world" where
  "ctx_loop_start E rc w =
     (case ctx_check w 1 of
        Inl e \<Rightarrow> (Raises e, w)
      | Inr ctx \<Rightarrow>
          (let w1 = ctx_update ctx (\<lambda>c. c\<lparr>ctx_L := Lua_state\<rparr>) w in
           mosq__pstatus E rc (codec_call (Mosquitto_loop_start (mosq (udata w1 ctx))) w1)))"

definition ctx_loop_stop :: "environment \<Rightarrow> mosq_err_t \<Rightarrow> world \<Rightarrow> nat outcome \<times> world" where
  "ctx_loop_stop E rc w =
     (case ctx_check w 1 of
        Inl e \<Rightarrow> (Raises e, w)
      | Inr ctx \<Rightarrow>
          (let force = lua_toboolean w 2;
               w1 = codec_call (Mosquitto_loop_stop (mosq (udata w ctx)) force) w
           in mosq__pstatus E rc (ctx_update ctx (\<lambda>c. c\<lparr>ctx_L := NULL\<rparr>) w1)))"

definition ctx_loop_read ::
  "environment \<Rightarrow> behaviour \<Rightarrow> event list \<Rightarrow> mosq_err_t \<Rightarrow> world \<Rightarrow> nat outcome \<times> world" where
  "ctx_loop_read E H evs rc w =
     (case ctx_check w 1 of
        Inl e \<Rightarrow> (Raises e, w)
      | Inr ctx \<Rightarrow>
          (case luaL_optinteger E w 2 1 of
             Inl e \<Rightarrow> (Raises e, w)
           | Inr n2 \<Rightarrow>
               (let max_packets = c_int n2;
                    w1 = ctx_update ctx (\<lambda>c. c\<lparr>ctx_L := Lua_state\<rparr>) w;
                    w2 = codec_call (Mosquitto_loop_read (mosq (udata w1 ctx)) max_packets) w1
                in case run_events E H ctx evs w2 of
                     None \<Rightarrow> (Undefined, w2)
                   | Some w3 \<Rightarrow>
                       mosq__pstatus E rc (ctx_update ctx (\<lambda>c. c\<lparr>ctx_L := NULL\<rparr>) w3))))"

definition ctx_loop_write ::
  "environment \<Rightarrow> behaviour \<Rightarrow> event list \<Rightarrow> mosq_err_t \<Rightarrow> world \<Rightarrow> nat outcome \<times> world" where
  "ctx_loop_write E H evs rc w =
     (case ctx_check w 1 of
        Inl e \<Rightarrow> (Raises e, w)
      | Inr ctx \<Rightarrow>
          (case luaL_optinteger E w 2 1 of
             Inl e \<Rightarrow> (Raises e, w)
           | Inr n2 \<Rightarrow>
               (let max_packets = c_int n2;
                    w1 = ctx_update ctx (\<lambda>c. c\<lparr>ctx_L := Lua_state\<rparr>) w;
                    w2 = codec_call (Mosquitto_loop_write (mosq (udata w1 ctx)) max_packets) w1
                in case run_events E H ctx evs w2 of
                     None \<Rightarrow> (Undefined, w2)
                   | Some w3 \<Rightarrow>
                       mosq__pstatus E rc (ctx_update ctx (\<lambda>c. c\<lparr>ctx_L := NULL\<rparr>) w3))))"

definition ctx_loop_misc ::
  "environment \<Rightarrow> behaviour \<Rightarrow> event list \<Rightarrow> mosq_err_t \<Rightarrow> world \<Rightarrow> nat outcome \<times> world" where
  "ctx_loop_misc E H evs rc w =
     (case ctx_check w 1 of
        Inl e \<Rightarrow> (Raises e, w)
      | Inr ctx \<Rightarrow>
          (let w1 = ctx_update ctx (\<lambda>c. c\<lparr>ctx_L := Lua_state\<rparr>) w;
               w2 = codec_call (Mosquitto_loop_misc (mosq (udata w1 ctx))) w1
           in case run_events E H ctx evs w2 of
                None \<Rightarrow> (Undefined, w2)
              | Some w3 \<Rightarrow>
                  mosq__pstatus E rc (ctx_update ctx (\<lambda>c. c\<lparr>ctx_L := NULL\<rparr>) w3)))"

text \<open>
  The five operations that drive the loop in the caller's thread, as the method table
  \<^verbatim>\<open>ctx_M\<close> names them (\<^verbatim>\<open>loop\<close>, \<^verbatim>\<open>loop_forever\<close>, \<^verbatim>\<open>loop_read\<close>,
  \<^verbatim>\<open>loop_write\<close>, \<^verbatim>\<open>loop_misc\<close>).
\<close>

datatype loop_method = M_loop | M_loop_forever | M_loop_read | M_loop_write | M_loop_misc

fun ctx_M_loop ::
  "loop_method \<Rightarrow> environment \<Rightarrow> behaviour \<Rightarrow> event list \<Rightarrow> mosq_err_t \<Rightarrow> world
     \<Rightarrow> nat outcome \<times> world" where
  "ctx_M_loop M_loop = ctx_loop"
| "ctx_M_loop M_loop_forever = ctx_loop_forever"
| "ctx_M_loop M_loop_read = ctx_loop_read"
| "ctx_M_loop M_loop_write = ctx_loop_write"
| "ctx_M_loop M_loop_misc = ctx_loop_misc"

subsection \<open>Binding a hook\<close>

text \<open>The table \<^verbatim>\<open>D\<close>, without its terminating null entry.\<close>

definition D :: "environment \<Rightarrow> (string \<times> int) list" where
  "D E =
     [(''ON_CONNECT'', CONNECT),
      (''ON_DISCONNECT'', DISCONNECT),
      (''ON_PUBLISH'', PUBLISH),
      (''ON_MESSAGE'', MESSAGE),
      (''ON_SUBSCRIBE'', SUBSCRIBE),
      (''ON_UNSUBSCRIBE'', UNSUBSCRIBE),
      (''ON_LOG'', LOG),
      (''LOG_NONE'', MOSQ_LOG_NONE E),
      (''LOG_INFO'', MOSQ_LOG_INFO E),
      (''LOG_NOTICE'', MOSQ_LOG_NOTICE E),
      (''LOG_WARNING'', MOSQ_LOG_WARNING E),
      (''LOG_ERROR'', MOSQ_LOG_ERR E),
      (''LOG_DEBUG'', MOSQ_LOG_DEBUG E),
      (''LOG_ALL'', MOSQ_LOG_ALL E)]"

text \<open>The \<^verbatim>\<open>while\<close> loop of \<^verbatim>\<open>callback_type_from_string\<close> over the table.\<close>

fun find_define :: "(string \<times> int) list \<Rightarrow> string \<Rightarrow> int" where
  "find_define [] typestr = - 1"
| "find_define (def # defs) typestr =
     (if strcmp (fst def) typestr = 0 then snd def else find_define defs typestr)"

definition callback_type_from_string :: "environment \<Rightarrow> string \<Rightarrow> int" where
  "callback_type_from_string E typestr =
     (if strstr typestr ''ON_'' \<noteq> Some 0 then - 1 else find_define (D E) typestr)"

text \<open>
  The part of \<^verbatim>\<open>ctx_callback_set\<close> that follows the computation of
  \<^verbatim>\<open>callback_type\<close>.
\<close>

definition callback_set_store ::
  "environment \<Rightarrow> nat \<Rightarrow> int \<Rightarrow> world \<Rightarrow> nat outcome \<times> world" where
  "callback_set_store E ctx callback_type w =
     (if \<not> lua_isfunction w 3 then
        (Raises (Arg_error 3 ''expecting a callback function''), w)
      else
        (case luaL_ref w of
           (ref, w1) \<Rightarrow>
             (let m = mosq (udata w1 ctx) in
              if callback_type = CONNECT then
                mosq__pstatus E MOSQ_ERR_SUCCESS
                  (codec_call (Mosquitto_callback_set m CONNECT)
                    (ctx_update ctx (\<lambda>c. c\<lparr>on_connect := ref\<rparr>) w1))
              else if callback_type = DISCONNECT then
                mosq__pstatus E MOSQ_ERR_SUCCESS
                  (codec_call (Mosquitto_callback_set m DISCONNECT)
                    (ctx_update ctx (\<lambda>c. c\<lparr>on_disconnect := ref\<rparr>) w1))
              else if callback_type = PUBLISH then
                mosq__pstatus E MOSQ_ERR_SUCCESS
                  (codec_call (Mosquitto_callback_set m PUBLISH)
                    (ctx_update ctx (\<lambda>c. c\<lparr>on_publish := ref\<rparr>) w1))
              else if callback_type = MESSAGE then
                mosq__pstatus E MOSQ_ERR_SUCCESS
                  (codec_call (Mosquitto_callback_set m MESSAGE)
                    (ctx_update ctx (\<lambda>c. c\<lparr>on_message := ref\<rparr>) w1))
              else if callback_type = SUBSCRIBE then
                mosq__pstatus E MOSQ_ERR_SUCCESS
                  (codec_call (Mosquitto_callback_set m SUBSCRIBE)
                    (ctx_update ctx (\<lambda>c. c\<lparr>on_subscribe := ref\<rparr>) w1))
              else if callback_type = UNSUBSCRIBE then
                mosq__pstatus E MOSQ_ERR_SUCCESS
                  (codec_call (Mosquitto_callback_set m UNSUBSCRIBE)
                    (ctx_update ctx (\<lambda>c. c\<lparr>on_unsubscribe := ref\<rparr>) w1))
              else if callback_type = LOG then
                mosq__pstatus E MOSQ_ERR_SUCCESS
                  (codec_call (Mosquitto_callback_set m LOG)
                    (ctx_update ctx (\<lambda>c. c\<lparr>on_log := ref\<rparr>) w1))
              else
                (case luaL_unref Lua_state ref w1 of
                   None \<Rightarrow> (Undefined, w1)
                 | Some w2 \<Rightarrow> (Raises (Arg_error 2 ''not a proper callback type''), w2)))))"

definition ctx_callback_set :: "environment \<Rightarrow> world \<Rightarrow> nat outcome \<times> world" where
  "ctx_callback_set E w =
     (case ctx_check w 1 of
        Inl e \<Rightarrow> (Raises e, w)
      | Inr ctx \<Rightarrow>
          if lua_isstring w 2 then
            (case lua_tolstring w 2 of
               (None, w0) \<Rightarrow> (Undefined, w0)
             | (Some s, w0) \<Rightarrow>
                 callback_set_store E ctx (callback_type_from_string E (c_str s)) w0)
          else
            (case luaL_checkinteger E w 2 of
               Inl e \<Rightarrow> (Raises e, w)
             | Inr callback_type \<Rightarrow> callback_set_store E ctx callback_type w))"

subsection \<open>What a dispatched event leaves in the trace\<close>

text \<open>
  The reference the context holds for the kind of an event, and the arguments the
  hook of that kind is called with.
\<close>

fun hook_ref :: "ctx_t \<Rightarrow> event \<Rightarrow> int" where
  "hook_ref ctx (Ev_connect rc) = on_connect ctx"
| "hook_ref ctx (Ev_disconnect rc) = on_disconnect ctx"
| "hook_ref ctx (Ev_publish m) = on_publish ctx"
| "hook_ref ctx (Ev_message msg) = on_message ctx"
| "hook_ref ctx (Ev_subscribe m granted_qos) = on_subscribe ctx"
| "hook_ref ctx (Ev_unsubscribe m) = on_unsubscribe ctx"
| "hook_ref ctx (Ev_log level str) = on_log ctx"

definition connect_reason :: "int \<Rightarrow> string" where
  "connect_reason rc =
     (if rc = 0 then ''connection accepted''
      else if rc = 1 then ''connection refused - incorrect protocol version''
      else if rc = 2 then ''connection refused - invalid client identifier''
      else if rc = 3 then ''connection refused - server unavailable''
      else if rc = 4 then ''connection refused - bad username or password''
      else if rc = 5 then ''connection refused - not authorised''
      else if rc = 6 then ''connection refused - TLS error''
      else ''reserved for future use'')"

definition disconnect_reason :: "int \<Rightarrow> string" where
  "disconnect_reason rc =
     (if rc = 0 then ''client-initiated disconnect'' else ''unexpected disconnect'')"

fun hook_args :: "event \<Rightarrow> lua_value list" where
  "hook_args (Ev_connect rc) = [LBoolean (rc = 0), LNumber rc, LString (connect_reason rc)]"
| "hook_args (Ev_disconnect rc) =
     [LBoolean (rc = 0), LNumber rc, LString (disconnect_reason rc)]"
| "hook_args (Ev_publish m) = [LNumber m]"
| "hook_args (Ev_message msg) =
     [LNumber (mid msg), LString (c_str (topic msg)), LString (payload msg),
      LNumber (qos msg), LBoolean (retain msg)]"
| "hook_args (Ev_subscribe m granted_qos) = LNumber m # map LNumber granted_qos"
| "hook_args (Ev_unsubscribe m) = [LNumber m]"
| "hook_args (Ev_log level str) = [LNumber level, LString (c_str str)]"

text \<open>The symbolic name of the kind of an event, as the table \<^verbatim>\<open>D\<close> has it.\<close>

fun kind_name :: "event \<Rightarrow> string" where
  "kind_name (Ev_connect rc) = ''ON_CONNECT''"
| "kind_name (Ev_disconnect rc) = ''ON_DISCONNECT''"
| "kind_name (Ev_publish m) = ''ON_PUBLISH''"
| "kind_name (Ev_message msg) = ''ON_MESSAGE''"
| "kind_name (Ev_subscribe m granted_qos) = ''ON_SUBSCRIBE''"
| "kind_name (Ev_unsubscribe m) = ''ON_UNSUBSCRIBE''"
| "kind_name (Ev_log level str) = ''ON_LOG''"

text \<open>
  Calling a Lua function adds one entry to the trace; a value that is not a function
  is not called.
\<close>

definition invocation :: "lua_value \<Rightarrow> lua_value list \<Rightarrow> (nat \<times> lua_value list) list" where
  "invocation f args = (case f of LFunction k \<Rightarrow> [(k, args)] | _ \<Rightarrow> [])"

text \<open>An event reaches its hook unless the stack cannot be grown for a subscribe.\<close>

fun reaches_hook :: "environment \<Rightarrow> event \<Rightarrow> bool" where
  "reaches_hook E (Ev_subscribe m granted_qos) = lua_checkstack E (length granted_qos + 2)"
| "reaches_hook E ev = True"

definition hook_trace ::
  "environment \<Rightarrow> world \<Rightarrow> nat \<Rightarrow> event \<Rightarrow> (nat \<times> lua_value list) list" where
  "hook_trace E w obj ev =
     (if reaches_hook E ev
      then invocation (registry_get w (hook_ref (udata w obj) ev)) (hook_args ev)
      else [])"

text \<open>
  The C functions of the binding are pushed and called at once; Lua code never sees
  one, so none is ever handed to \<^verbatim>\<open>ctx_callback_set\<close> and stored in the registry.
\<close>

definition is_cfunction :: "lua_value \<Rightarrow> bool" where
  "is_cfunction v = (case v of LCFunction _ \<Rightarrow> True | _ \<Rightarrow> False)"

definition no_cfunction :: "world \<Rightarrow> bool" where
  "no_cfunction w = list_all (\<lambda>e. \<not> is_cfunction (snd e)) (registry w)"

text \<open>
  What holds of each of the five calls whether or not its arguments are accepted,
  \<open>r\<close> being its outcome and final state: the call is defined, and a
  back-reference that was unset before the call is unset after it.
\<close>

definition loop_call_ok :: "world \<Rightarrow> nat outcome \<times> world \<Rightarrow> bool" where
  "loop_call_ok w r =
     (fst r \<noteq> Undefined
      \<and> (\<forall>b. ctx_L (udata w b) = NULL \<longrightarrow> ctx_L (udata (snd r) b) = NULL))"

subsection \<open>Concrete states for the examples\<close>

text \<open>
  An environment with the values of libmosquitto 1.x on Linux: \<^verbatim>\<open>errno\<close> is
  \<^verbatim>\<open>ECONNRESET\<close>, no string converts to a number, the stack can always grow.
\<close>

definition example_env :: environment where
  "example_env =
     \<lparr>errno = 104,
      strerror = (\<lambda>n. if n = 104 then ''Connection reset by peer'' else ''Unknown error''),
      mosquitto_strerror =
        (\<lambda>rc. case rc of
           MOSQ_ERR_SUCCESS \<Rightarrow> ''No error.''
         | MOSQ_ERR_INVAL \<Rightarrow> ''Invalid function arguments provided.''
         | MOSQ_ERR_NOMEM \<Rightarrow> ''Out of memory.''
         | MOSQ_ERR_PROTOCOL \<Rightarrow>
             ''A network protocol error occurred when communicating with the broker.''
         | MOSQ_ERR_NOT_SUPPORTED \<Rightarrow> ''This feature is not supported.''
         | MOSQ_ERR_NO_CONN \<Rightarrow> ''The client is not currently connected.''
         | MOSQ_ERR_CONN_LOST \<Rightarrow> ''The connection was lost.''
         | MOSQ_ERR_PAYLOAD_SIZE \<Rightarrow> ''Payload too large.''
         | MOSQ_ERR_ERRNO \<Rightarrow> ''Connection reset by peer''
         | MOSQ_ERR_OTHER _ \<Rightarrow> ''Unknown error.''),
      mosq_err_value =
        (\<lambda>rc. case rc of
           MOSQ_ERR_SUCCESS \<Rightarrow> 0
         | MOSQ_ERR_INVAL \<Rightarrow> 3
         | MOSQ_ERR_NOMEM \<Rightarrow> 1
         | MOSQ_ERR_PROTOCOL \<Rightarrow> 2
         | MOSQ_ERR_NOT_SUPPORTED \<Rightarrow> 10
         | MOSQ_ERR_NO_CONN \<Rightarrow> 4
         | MOSQ_ERR_CONN_LOST \<Rightarrow> 7
         | MOSQ_ERR_PAYLOAD_SIZE \<Rightarrow> 9
         | MOSQ_ERR_ERRNO \<Rightarrow> 14
         | MOSQ_ERR_OTHER n \<Rightarrow> n),
      str2number = (\<lambda>s. None),
      lua_checkstack = (\<lambda>n. True),
      MOSQ_LOG_NONE = 0x00,
      MOSQ_LOG_INFO = 0x01,
      MOSQ_LOG_NOTICE = 0x02,
      MOSQ_LOG_WARNING = 0x04,
      MOSQ_LOG_ERR = 0x08,
      MOSQ_LOG_DEBUG = 0x10,
      MOSQ_LOG_ALL = 0xFFFF\<rparr>"

text \<open>Memory that was never written reads as zeroes.\<close>

definition zero_ctx :: ctx_t where
  "zero_ctx =
     \<lparr>ctx_L = NULL, mosq = 0, on_connect = 0, on_disconnect = 0, on_publish = 0,
      on_message = 0, on_subscribe = 0, on_unsubscribe = 0, on_log = 0\<rparr>"

definition empty_world :: world where
  "empty_world =
     \<lparr>stack = [], registry = [], metatables = (\<lambda>x. None), next_table = 0,
      udata = (\<lambda>a. zero_ctx), next_udata = 0, codec_calls = [], calls = []\<rparr>"

text \<open>A call from Lua: the C function starts on a stack that holds its arguments.\<close>

definition with_args :: "lua_value list \<Rightarrow> world \<Rightarrow> world" where
  "with_args args w = w\<lparr>stack := args\<rparr>"

text \<open>
  The state after \<^verbatim>\<open>mosquitto.new("client")\<close>, the codec having returned the handle
  1: the instance is the userdata at address 0.
\<close>

definition new_client :: world where
  "new_client = snd (mosq_new example_env (Some 1) (with_args [LString ''client''] empty_world))"

text \<open>
  The same client after it has bound the Lua functions 7, 8 and 9 to
  \<^verbatim>\<open>ON_CONNECT\<close>, \<^verbatim>\<open>ON_DISCONNECT\<close> and \<^verbatim>\<open>ON_MESSAGE\<close>.
\<close>

definition hooked_client :: world where
  "hooked_client =
     snd (ctx_callback_set example_env
       (with_args [LUserdata 0, LString ''ON_MESSAGE'', LFunction 9]
         (snd (ctx_callback_set example_env
           (with_args [LUserdata 0, LString ''ON_DISCONNECT'', LFunction 8]
             (snd (ctx_callback_set example_env
               (with_args [LUserdata 0, LString ''ON_CONNECT'', LFunction 7] new_client))))))))"

text \<open>
  The state in which \<^verbatim>\<open>ctx:loop()\<close> of that client hands control to the codec:
  \<^verbatim>\<open>ctx->L\<close> is bound.
\<close>

definition in_loop :: world where
  "in_loop = ctx_update 0 (\<lambda>c. c\<lparr>ctx_L := Lua_state\<rparr>) (with_args [LUserdata 0] hooked_client)"

text \<open>
  The stack of \<^verbatim>\<open>ctx:loop(4294967301)\<close> (and of \<^verbatim>\<open>ctx:loop_read(4294967301)\<close>)
  on that client: the number is \<open>2 ^ 32 + 5\<close>, outside the range of \<^verbatim>\<open>int\<close>.
\<close>

definition wide_argument :: world where
  "wide_argument = with_args [LUserdata 0, LNumber 4294967301] hooked_client"

definition example_message :: mosquitto_message where
  "example_message = \<lparr>mid = 3, topic = ''a/b'', payload = ''hi'', qos = 1, retain = False\<rparr>"

text \<open>A behaviour under which every Lua function raises an error when it is called.\<close>

definition always_raises :: behaviour where
  "always_raises = (\<lambda>k args. Some (LString ''error in hook''))"

definition never_raises :: behaviour where
  "never_raises = (\<lambda>k args. None)"

text \<open>
  The new client after it has bound function 7 and then function 8 to
  \<^verbatim>\<open>ON_CONNECT\<close>.
\<close>

definition rebound_client :: world where
  "rebound_client =
     snd (ctx_callback_set example_env
       (with_args [LUserdata 0, LString ''ON_CONNECT'', LFunction 8]
         (snd (ctx_callback_set example_env
           (with_args [LUserdata 0, LString ''ON_CONNECT'', LFunction 7] new_client)))))"

section \<open>Properties\<close>

subsection \<open>Basic facts about the Lua API\<close>

lemmas push_defs =
  lua_push_def lua_pushnil_def lua_pushboolean_def lua_pushinteger_def lua_pushstring_def
  lua_pushlstring_def lua_pushcfunction_def lua_pushlightuserdata_def

lemmas callback_type_defs =
  CONNECT_def PUBLISH_def SUBSCRIBE_def UNSUBSCRIBE_def DISCONNECT_def MESSAGE_def LOG_def

lemma results_pstatus:
  "results (mosq__pstatus E rc w) =
     (case rc of
        MOSQ_ERR_SUCCESS \<Rightarrow> Returns [LBoolean True]
      | MOSQ_ERR_NO_CONN \<Rightarrow>
          Returns [LNil, LNumber (mosq_err_value E rc), LString (c_str (mosquitto_strerror E rc))]
      | MOSQ_ERR_CONN_LOST \<Rightarrow>
          Returns [LNil, LNumber (mosq_err_value E rc), LString (c_str (mosquitto_strerror E rc))]
      | MOSQ_ERR_PAYLOAD_SIZE \<Rightarrow>
          Returns [LNil, LNumber (mosq_err_value E rc), LString (c_str (mosquitto_strerror E rc))]
      | MOSQ_ERR_ERRNO \<Rightarrow>
          Returns [LNil, LNumber (errno E), LString (c_str (strerror E (errno E)))]
      | MOSQ_ERR_OTHER n \<Rightarrow> Returns []
      | _ \<Rightarrow> Raises (Lua_error (mosquitto_strerror E rc)))"
  by (cases rc) (simp_all add: mosq__pstatus_def results_def push_defs)

lemma results_push1:
  "results (Returns (Suc 0), lua_pushinteger m w) = Returns [LNumber m]"
  "results (Returns (Suc 0), lua_pushboolean b w) = Returns [LBoolean b]"
  by (simp_all add: results_def push_defs)

lemma results_op_return:
  "results (op_return E op rc m res w) =
     (if rc = MOSQ_ERR_SUCCESS \<and> (op = Publish \<or> op = Subscribe \<or> op = Unsubscribe)
      then Returns [LNumber m]
      else if rc = MOSQ_ERR_SUCCESS \<and> op = Topic_matches_sub then Returns [LBoolean res]
      else results (mosq__pstatus E rc w))"
  by (cases op) (simp_all add: return_mid_def return_match_def results_pstatus results_push1)

lemma pstatus_not_undefined [simp]: "fst (mosq__pstatus E rc w) \<noteq> Undefined"
  by (cases rc) (simp_all add: mosq__pstatus_def)

lemma pstatus_keeps [simp]:
  "udata (snd (mosq__pstatus E rc w)) = udata w"
  "calls (snd (mosq__pstatus E rc w)) = calls w"
  "codec_calls (snd (mosq__pstatus E rc w)) = codec_calls w"
  "registry (snd (mosq__pstatus E rc w)) = registry w"
  "metatables (snd (mosq__pstatus E rc w)) = metatables w"
  by (cases rc; simp add: mosq__pstatus_def push_defs)+

subsection \<open>The status handler\<close>

text \<open>
  Claim C1, as stated, says that every operation that goes through
  \<^verbatim>\<open>mosq__pstatus\<close> returns the boolean true on success.  \<^verbatim>\<open>ctx_publish\<close> does
  not: when the codec reports success for a publish with message id 7, Lua receives
  the number 7.
\<close>

theorem publish_success_returns_mid:
  "results (op_return example_env Publish MOSQ_ERR_SUCCESS 7 False empty_world)
     = Returns [LNumber 7]
   \<and> results (op_return example_env Publish MOSQ_ERR_SUCCESS 7 False empty_world)
     \<noteq> Returns [LBoolean True]"
  by (simp add: return_mid_def results_push1)

text \<open>
  Claim C1, amended: for every operation routed through the shared status handler,
  the codes invalid-argument, out-of-memory, protocol-error and not-supported are
  raised as a Lua error whose message is the codec's description, and nothing is
  pushed; no-connection, connection-lost and payload-too-large return the triple
  nil, numeric code, description; the errno code returns the triple nil,
  \<^verbatim>\<open>errno\<close>, \<^verbatim>\<open>strerror(errno)\<close>; success returns the boolean true, except that
  publish, subscribe and unsubscribe return the message id and topic_matches_sub
  returns the result of the match.
\<close>

theorem status_handler_contract:
  "results (op_return E op MOSQ_ERR_INVAL m res w)
     = Raises (Lua_error (mosquitto_strerror E MOSQ_ERR_INVAL))
   \<and> results (op_return E op MOSQ_ERR_NOMEM m res w)
     = Raises (Lua_error (mosquitto_strerror E MOSQ_ERR_NOMEM))
   \<and> results (op_return E op MOSQ_ERR_PROTOCOL m res w)
     = Raises (Lua_error (mosquitto_strerror E MOSQ_ERR_PROTOCOL))
   \<and> results (op_return E op MOSQ_ERR_NOT_SUPPORTED m res w)
     = Raises (Lua_error (mosquitto_strerror E MOSQ_ERR_NOT_SUPPORTED))
   \<and> results (op_return E op MOSQ_ERR_NO_CONN m res w)
     = Returns [LNil, LNumber (mosq_err_value E MOSQ_ERR_NO_CONN),
                LString (c_str (mosquitto_strerror E MOSQ_ERR_NO_CONN))]
   \<and> results (op_return E op MOSQ_ERR_CONN_LOST m res w)
     = Returns [LNil, LNumber (mosq_err_value E MOSQ_ERR_CONN_LOST),
                LString (c_str (mosquitto_strerror E MOSQ_ERR_CONN_LOST))]
   \<and> results (op_return E op MOSQ_ERR_PAYLOAD_SIZE m res w)
     = Returns [LNil, LNumber (mosq_err_value E MOSQ_ERR_PAYLOAD_SIZE),
                LString (c_str (mosquitto_strerror E MOSQ_ERR_PAYLOAD_SIZE))]
   \<and> results (op_return E op MOSQ_ERR_ERRNO m res w)
     = Returns [LNil, LNumber (errno E), LString (c_str (strerror E (errno E)))]
   \<and> results (op_return E op MOSQ_ERR_SUCCESS m res w)
     = Returns [if op = Publish \<or> op = Subscribe \<or> op = Unsubscribe then LNumber m
                else if op = Topic_matches_sub then LBoolean res
                else LBoolean True]
   \<and> snd (op_return E op MOSQ_ERR_INVAL m res w) = w
   \<and> snd (op_return E op MOSQ_ERR_NOMEM m res w) = w
   \<and> snd (op_return E op MOSQ_ERR_PROTOCOL m res w) = w
   \<and> snd (op_return E op MOSQ_ERR_NOT_SUPPORTED m res w) = w"
proof -
  have unchanged: "snd (op_return E op rc m res w) = w"
    if "rc = MOSQ_ERR_INVAL \<or> rc = MOSQ_ERR_NOMEM \<or> rc = MOSQ_ERR_PROTOCOL
        \<or> rc = MOSQ_ERR_NOT_SUPPORTED" for rc
    using that
    by (cases op) (auto simp: return_mid_def return_match_def mosq__pstatus_def)
  show ?thesis
    by (simp add: results_op_return results_pstatus unchanged)
qed

subsection \<open>Calls on the Lua stack\<close>

lemmas conn_defs =
  CONN_ACCEPT_def CONN_REF_BAD_PROTOCOL_def CONN_REF_BAD_ID_def CONN_REF_SERVER_NOAVAIL_def
  CONN_REF_BAD_LOGIN_def CONN_REF_NO_AUTH_def CONN_REF_BAD_TLS_def

lemma callee_at:
  "stack w = xs @ f # args \<Longrightarrow> length args = n \<Longrightarrow> callee n w = f"
  by (simp add: callee_def nth_append)

lemma call_args_at:
  "stack w = xs @ f # args \<Longrightarrow> length args = n \<Longrightarrow> call_args n w = args"
  by (simp add: call_args_def)

lemma call_base_at:
  "stack w = xs @ f # args \<Longrightarrow> length args = n \<Longrightarrow> call_base n w = xs"
  by (simp add: call_base_def)

lemma lua_call_at:
  assumes "stack w = xs @ f # args" "length args = n"
  shows "lua_call H n w =
    (case f of
       LFunction k \<Rightarrow> (H k args, w\<lparr>stack := xs, calls := calls w @ [(k, args)]\<rparr>)
     | _ \<Rightarrow> (Some (call_error f), w))"
  by (cases f)
     (simp_all add: lua_call_def callee_at[OF assms] call_args_at[OF assms]
        call_base_at[OF assms])

lemma tointeger_1: "stack w = LNumber a # xs \<Longrightarrow> lua_tointeger E w 1 = a"
  by (simp add: lua_tointeger_def lua_tointegerx_def index_value_def)

lemma tointeger_2: "stack w = x # LNumber b # xs \<Longrightarrow> lua_tointeger E w 2 = b"
  by (simp add: lua_tointeger_def lua_tointegerx_def index_value_def)

lemma pcall_cfunction:
  assumes "stack w = xs @ LCFunction f # args" "length args = n"
  shows "lua_pcall E H n w =
     (case run_cfunction E H f (w\<lparr>stack := args\<rparr>) of
        None \<Rightarrow> None
      | Some (None, w') \<Rightarrow> Some (0, w'\<lparr>stack := xs\<rparr>)
      | Some (Some e, w') \<Rightarrow> Some (LUA_ERRRUN, w'\<lparr>stack := xs @ [e]\<rparr>))"
  unfolding lua_pcall_def callee_at[OF assms] call_args_at[OF assms] call_base_at[OF assms]
  by simp

text \<open>
  A hook called directly under \<^verbatim>\<open>lua_pcall\<close>, and the pop that follows a failure:
  whether the hook returns or raises, the stack is back where it was and only the
  trace has grown.
\<close>

lemma pcall_and_pop_hook:
  assumes st: "stack w = xs @ f # args" and n: "length args = n" and f: "\<not> is_cfunction f"
  shows "pcall_and_pop E H n w = Some (w\<lparr>stack := xs, calls := calls w @ invocation f args\<rparr>)"
proof (cases f)
  case (LFunction k)
  then show ?thesis
    by (cases "H k args")
       (simp_all add: pcall_and_pop_def lua_pcall_def callee_at[OF st n] lua_call_at[OF st n]
          call_base_at[OF st n] invocation_def LUA_ERRRUN_def lua_pop_def)
next
  case (LCFunction c)
  with f show ?thesis by (simp add: is_cfunction_def)
qed (simp_all add: pcall_and_pop_def lua_pcall_def callee_at[OF st n] lua_call_at[OF st n]
       call_base_at[OF st n] invocation_def LUA_ERRRUN_def lua_pop_def)

text \<open>The same for a \<^verbatim>\<open>*_safe\<close> function that ends in \<^verbatim>\<open>lua_call\<close> of the hook.\<close>

lemma pcall_and_pop_safe:
  assumes st: "stack w = xs @ LCFunction c # args" and n: "length args = n"
    and body: "run_cfunction E H c (w\<lparr>stack := args\<rparr>) =
                 Some (lua_call H m (w\<lparr>stack := args @ f # hargs\<rparr>))"
    and m: "length hargs = m"
  shows "pcall_and_pop E H n w = Some (w\<lparr>stack := xs, calls := calls w @ invocation f hargs\<rparr>)"
proof -
  have st': "stack (w\<lparr>stack := args @ f # hargs\<rparr>) = args @ f # hargs" by simp
  note lc = lua_call_at[OF st' m, of H]
  show ?thesis
  proof (cases f)
    case (LFunction k)
    with lc show ?thesis
      by (cases "H k hargs")
         (simp_all add: pcall_and_pop_def pcall_cfunction[OF st n] body
            invocation_def LUA_ERRRUN_def lua_pop_def)
  qed (use lc in \<open>simp_all add: pcall_and_pop_def pcall_cfunction[OF st n] body
         invocation_def LUA_ERRRUN_def lua_pop_def\<close>)
qed

subsection \<open>The seven callbacks\<close>

lemma connect_reason_c_str:
  "c_str (if rc = CONN_ACCEPT then ''connection accepted''
          else if rc = CONN_REF_BAD_PROTOCOL then
            ''connection refused - incorrect protocol version''
          else if rc = CONN_REF_BAD_ID then
            ''connection refused - invalid client identifier''
          else if rc = CONN_REF_SERVER_NOAVAIL then
            ''connection refused - server unavailable''
          else if rc = CONN_REF_BAD_LOGIN then
            ''connection refused - bad username or password''
          else if rc = CONN_REF_NO_AUTH then
            ''connection refused - not authorised''
          else if rc = CONN_REF_BAD_TLS then
            ''connection refused - TLS error''
          else ''reserved for future use'') = connect_reason rc"
  by (simp add: c_str_def conn_defs connect_reason_def)

lemma ctx_on_connect_safe_eq:
  assumes st: "stack w = [LNumber ref, LNumber rc]"
  shows "ctx_on_connect_safe E H w =
    Some (lua_call H 3 (w\<lparr>stack := [LNumber ref, LNumber rc] @ registry_get w ref #
       hook_args (Ev_connect rc)\<rparr>))"
  unfolding ctx_on_connect_safe_def Let_def tointeger_1[OF st] tointeger_2[OF st]
    lua_pushstring_def connect_reason_c_str
  by (simp add: push_defs lua_rawgeti_def st conn_defs)

lemma ctx_on_disconnect_safe_eq:
  assumes st: "stack w = [LNumber ref, LNumber rc]"
  shows "ctx_on_disconnect_safe E H w =
    Some (lua_call H 3 (w\<lparr>stack := [LNumber ref, LNumber rc] @ registry_get w ref #
       hook_args (Ev_disconnect rc)\<rparr>))"
  unfolding ctx_on_disconnect_safe_def Let_def tointeger_1[OF st] tointeger_2[OF st]
  by (simp add: push_defs lua_rawgeti_def st c_str_def disconnect_reason_def)

lemma ctx_on_connect_eq:
  assumes "ctx_L (udata w obj) = Lua_state"
  shows "ctx_on_connect E H obj rc w =
     Some (w\<lparr>calls := calls w @ hook_trace E w obj (Ev_connect rc)\<rparr>)"
proof -
  let ?ref = "on_connect (udata w obj)"
  let ?args = "[LNumber ?ref, LNumber rc]"
  let ?w3 = "lua_pushinteger rc (lua_pushinteger ?ref (lua_pushcfunction Ctx_on_connect_safe w))"
  have st: "stack ?w3 = stack w @ LCFunction Ctx_on_connect_safe # ?args"
    by (simp add: push_defs)
  have body: "run_cfunction E H Ctx_on_connect_safe (?w3\<lparr>stack := ?args\<rparr>) =
     Some (lua_call H 3 (?w3\<lparr>stack := ?args @ registry_get w ?ref # hook_args (Ev_connect rc)\<rparr>))"
    by (simp add: ctx_on_connect_safe_eq registry_get_def push_defs)
  have "pcall_and_pop E H 2 ?w3 =
      Some (?w3\<lparr>stack := stack w,
                 calls := calls ?w3 @ invocation (registry_get w ?ref) (hook_args (Ev_connect rc))\<rparr>)"
    by (rule pcall_and_pop_safe[OF st _ body]) simp_all
  then show ?thesis
    using assms by (simp add: ctx_on_connect_def hook_trace_def push_defs)
qed

lemma ctx_on_disconnect_eq:
  assumes "ctx_L (udata w obj) = Lua_state"
  shows "ctx_on_disconnect E H obj rc w =
     Some (w\<lparr>calls := calls w @ hook_trace E w obj (Ev_disconnect rc)\<rparr>)"
proof -
  let ?ref = "on_disconnect (udata w obj)"
  let ?args = "[LNumber ?ref, LNumber rc]"
  let ?w3 = "lua_pushinteger rc (lua_pushinteger ?ref
               (lua_pushcfunction Ctx_on_disconnect_safe w))"
  have st: "stack ?w3 = stack w @ LCFunction Ctx_on_disconnect_safe # ?args"
    by (simp add: push_defs)
  have body: "run_cfunction E H Ctx_on_disconnect_safe (?w3\<lparr>stack := ?args\<rparr>) =
     Some (lua_call H 3
       (?w3\<lparr>stack := ?args @ registry_get w ?ref # hook_args (Ev_disconnect rc)\<rparr>))"
    by (simp add: ctx_on_disconnect_safe_eq registry_get_def push_defs)
  have "pcall_and_pop E H 2 ?w3 =
      Some (?w3\<lparr>stack := stack w,
                 calls := calls ?w3 @
                   invocation (registry_get w ?ref) (hook_args (Ev_disconnect rc))\<rparr>)"
    by (rule pcall_and_pop_safe[OF st _ body]) simp_all
  then show ?thesis
    using assms by (simp add: ctx_on_disconnect_def hook_trace_def push_defs)
qed

lemma ctx_on_message_eq:
  assumes "ctx_L (udata w obj) = Lua_state"
  shows "ctx_on_message E H obj msg w =
     Some (w\<lparr>calls := calls w @ hook_trace E w obj (Ev_message msg)\<rparr>)"
proof -
  let ?ref = "on_message (udata w obj)"
  let ?args = "[LNumber ?ref, LLightuserdata (Msg msg)]"
  let ?w3 = "lua_pushlightuserdata (Msg msg) (lua_pushinteger ?ref
              (lua_pushcfunction Ctx_on_message_safe w))"
  have st: "stack ?w3 = stack w @ LCFunction Ctx_on_message_safe # ?args"
    by (simp add: push_defs)
  have body: "run_cfunction E H Ctx_on_message_safe (?w3\<lparr>stack := ?args\<rparr>) =
     Some (lua_call H 5
       (?w3\<lparr>stack := ?args @ registry_get w ?ref # hook_args (Ev_message msg)\<rparr>))"
    by (simp add: ctx_on_message_safe_def lua_tointeger_def lua_tointegerx_def index_value_def
          lua_touserdata_def lua_rawgeti_def registry_get_def push_defs)
  have "pcall_and_pop E H 2 ?w3 =
      Some (?w3\<lparr>stack := stack w,
                 calls := calls ?w3 @
                   invocation (registry_get w ?ref) (hook_args (Ev_message msg))\<rparr>)"
    by (rule pcall_and_pop_safe[OF st _ body]) simp_all
  then show ?thesis
    using assms by (simp add: ctx_on_message_def hook_trace_def push_defs)
qed

lemma ctx_on_log_eq:
  assumes "ctx_L (udata w obj) = Lua_state"
  shows "ctx_on_log E H obj level str w =
     Some (w\<lparr>calls := calls w @ hook_trace E w obj (Ev_log level str)\<rparr>)"
proof -
  let ?ref = "on_log (udata w obj)"
  let ?args = "[LNumber ?ref, LNumber level, LLightuserdata (Cstr str)]"
  let ?w3 = "lua_pushlightuserdata (Cstr str) (lua_pushinteger level (lua_pushinteger ?ref
              (lua_pushcfunction Ctx_on_log_safe w)))"
  have st: "stack ?w3 = stack w @ LCFunction Ctx_on_log_safe # ?args"
    by (simp add: push_defs)
  have body: "run_cfunction E H Ctx_on_log_safe (?w3\<lparr>stack := ?args\<rparr>) =
     Some (lua_call H 2
       (?w3\<lparr>stack := ?args @ registry_get w ?ref # hook_args (Ev_log level str)\<rparr>))"
    by (simp add: ctx_on_log_safe_def lua_tointeger_def lua_tointegerx_def index_value_def
          lua_touserdata_def lua_rawgeti_def registry_get_def push_defs)
  have "pcall_and_pop E H 3 ?w3 =
      Some (?w3\<lparr>stack := stack w,
                 calls := calls ?w3 @
                   invocation (registry_get w ?ref) (hook_args (Ev_log level str))\<rparr>)"
    by (rule pcall_and_pop_safe[OF st _ body]) simp_all
  then show ?thesis
    using assms by (simp add: ctx_on_log_def hook_trace_def push_defs)
qed

lemma ctx_on_publish_eq:
  assumes "ctx_L (udata w obj) = Lua_state"
    and "\<not> is_cfunction (registry_get w (on_publish (udata w obj)))"
  shows "ctx_on_publish E H obj m w =
     Some (w\<lparr>calls := calls w @ hook_trace E w obj (Ev_publish m)\<rparr>)"
proof -
  let ?f = "registry_get w (on_publish (udata w obj))"
  let ?w2 = "lua_pushinteger m (lua_rawgeti (on_publish (udata w obj)) w)"
  have st: "stack ?w2 = stack w @ ?f # [LNumber m]"
    by (simp add: push_defs lua_rawgeti_def)
  have "pcall_and_pop E H 1 ?w2 =
      Some (?w2\<lparr>stack := stack w, calls := calls ?w2 @ invocation ?f [LNumber m]\<rparr>)"
    by (rule pcall_and_pop_hook[OF st _ assms(2)]) simp
  then show ?thesis
    using assms by (simp add: ctx_on_publish_def hook_trace_def push_defs lua_rawgeti_def)
qed

lemma ctx_on_unsubscribe_eq:
  assumes "ctx_L (udata w obj) = Lua_state"
    and "\<not> is_cfunction (registry_get w (on_unsubscribe (udata w obj)))"
  shows "ctx_on_unsubscribe E H obj m w =
     Some (w\<lparr>calls := calls w @ hook_trace E w obj (Ev_unsubscribe m)\<rparr>)"
proof -
  let ?f = "registry_get w (on_unsubscribe (udata w obj))"
  let ?w2 = "lua_pushinteger m (lua_rawgeti (on_unsubscribe (udata w obj)) w)"
  have st: "stack ?w2 = stack w @ ?f # [LNumber m]"
    by (simp add: push_defs lua_rawgeti_def)
  have "pcall_and_pop E H 1 ?w2 =
      Some (?w2\<lparr>stack := stack w, calls := calls ?w2 @ invocation ?f [LNumber m]\<rparr>)"
    by (rule pcall_and_pop_hook[OF st _ assms(2)]) simp
  then show ?thesis
    using assms by (simp add: ctx_on_unsubscribe_def hook_trace_def push_defs lua_rawgeti_def)
qed

lemma fold_pushinteger:
  "fold lua_pushinteger qs w = w\<lparr>stack := stack w @ map LNumber qs\<rparr>"
  by (induction qs arbitrary: w) (simp_all add: push_defs)

lemma ctx_on_subscribe_eq:
  assumes "ctx_L (udata w obj) = Lua_state"
    and "\<not> is_cfunction (registry_get w (on_subscribe (udata w obj)))"
  shows "ctx_on_subscribe E H obj m granted_qos w =
     Some (w\<lparr>calls := calls w @ hook_trace E w obj (Ev_subscribe m granted_qos)\<rparr>)"
proof -
  let ?f = "registry_get w (on_subscribe (udata w obj))"
  let ?hargs = "LNumber m # map LNumber granted_qos"
  let ?w2 = "fold lua_pushinteger granted_qos
               (lua_pushinteger m (lua_rawgeti (on_subscribe (udata w obj)) w))"
  have st: "stack ?w2 = stack w @ ?f # ?hargs"
    by (simp add: fold_pushinteger push_defs lua_rawgeti_def)
  have "pcall_and_pop E H (length granted_qos + 1) ?w2 =
      Some (?w2\<lparr>stack := stack w, calls := calls ?w2 @ invocation ?f ?hargs\<rparr>)"
    by (rule pcall_and_pop_hook[OF st _ assms(2)]) simp
  then show ?thesis
    using assms
    by (simp add: ctx_on_subscribe_def hook_trace_def fold_pushinteger push_defs
          lua_rawgeti_def)
qed

lemma registry_get_no_cfunction:
  "no_cfunction w \<Longrightarrow> \<not> is_cfunction (registry_get w k)"
proof -
  assume a: "no_cfunction w"
  show ?thesis
  proof (cases "map_of (registry w) k")
    case None
    then show ?thesis by (simp add: registry_get_def is_cfunction_def)
  next
    case (Some v)
    then have "(k, v) \<in> set (registry w)" by (rule map_of_SomeD)
    with a have "\<not> is_cfunction v" by (auto simp: no_cfunction_def list_all_iff)
    with Some show ?thesis by (simp add: registry_get_def)
  qed
qed

text \<open>
  The registry holds no C function of the binding: it is empty at first, and
  \<^verbatim>\<open>ctx_callback_set\<close>, the only function that adds to it, stores an argument
  that came from Lua.
\<close>

lemma no_cfunction_empty: "no_cfunction empty_world"
  by (simp add: no_cfunction_def empty_world_def)

lemma no_cfunction_pstatus [simp]:
  "no_cfunction (snd (mosq__pstatus E rc w)) = no_cfunction w"
  by (simp add: no_cfunction_def)

lemma callback_set_store_no_cfunction:
  assumes "no_cfunction w" and "list_all (\<lambda>v. \<not> is_cfunction v) (stack w)"
  shows "no_cfunction (snd (callback_set_store E a t w))"
proof (cases "lua_isfunction w 3")
  case False
  then show ?thesis using assms by (simp add: callback_set_store_def)
next
  case True
  then have ne: "stack w \<noteq> []"
    by (auto simp: lua_isfunction_def index_value_def)
  with assms(2) have l: "\<not> is_cfunction (last (stack w))"
    by (simp add: list_all_iff)
  have r: "no_cfunction (snd (luaL_ref w))"
    using assms(1) l by (simp add: luaL_ref_def lua_pop_def no_cfunction_def Let_def)
  obtain k w1 where kw: "luaL_ref w = (k, w1)" by (cases "luaL_ref w")
  with r have "no_cfunction w1" by simp
  then have "no_cfunction (w1\<lparr>registry := filter (\<lambda>e. fst e \<noteq> k) (registry w1)\<rparr>)"
    by (simp add: no_cfunction_def list_all_iff)
  with \<open>no_cfunction w1\<close> True kw show ?thesis
    by (simp add: callback_set_store_def luaL_unref_def Let_def no_cfunction_def
          codec_call_def ctx_update_def)
qed

lemma ctx_callback_set_no_cfunction:
  assumes "no_cfunction w" and "list_all (\<lambda>v. \<not> is_cfunction v) (stack w)"
  shows "no_cfunction (snd (ctx_callback_set E w))"
proof -
  have upd: "list_all (\<lambda>v. \<not> is_cfunction v) ((stack w)[i := LString s])" for i s
    using assms(2)
    by (auto simp: list_all_iff is_cfunction_def
          dest!: set_update_subset_insert [THEN subsetD])
  have t: "no_cfunction (snd (lua_tolstring w 2))"
      "list_all (\<lambda>v. \<not> is_cfunction v) (stack (snd (lua_tolstring w 2)))"
    using assms upd
    by (auto simp: lua_tolstring_def no_cfunction_def split: option.splits lua_value.splits)
  show ?thesis
    using assms t
    by (auto simp: ctx_callback_set_def callback_set_store_no_cfunction
          split: sum.splits prod.splits option.splits)
qed

lemma dispatch_eq:
  assumes "ctx_L (udata w obj) = Lua_state" and "no_cfunction w"
  shows "dispatch E H obj ev w = Some (w\<lparr>calls := calls w @ hook_trace E w obj ev\<rparr>)"
  using assms
  by (cases ev)
     (simp_all add: ctx_on_connect_eq ctx_on_disconnect_eq ctx_on_publish_eq ctx_on_message_eq
        ctx_on_subscribe_eq ctx_on_unsubscribe_eq ctx_on_log_eq registry_get_no_cfunction)

lemma hook_trace_calls [simp]:
  "hook_trace E (w\<lparr>calls := c\<rparr>) obj = hook_trace E w obj"
  by (rule ext) (simp add: hook_trace_def registry_get_def)

lemma no_cfunction_calls [simp]: "no_cfunction (w\<lparr>calls := c\<rparr>) = no_cfunction w"
  by (simp add: no_cfunction_def)

lemma run_events_eq:
  assumes "ctx_L (udata w obj) = Lua_state" and "no_cfunction w"
  shows "run_events E H obj evs w =
           Some (w\<lparr>calls := calls w @ concat (map (hook_trace E w obj) evs)\<rparr>)"
  using assms
proof (induction evs arbitrary: w)
  case Nil
  then show ?case by simp
next
  case (Cons ev evs)
  let ?w' = "w\<lparr>calls := calls w @ hook_trace E w obj ev\<rparr>"
  have "run_events E H obj (ev # evs) w = run_events E H obj evs ?w'"
    using Cons.prems by (simp add: dispatch_eq)
  also have "\<dots> = Some (?w'\<lparr>calls := calls ?w' @ concat (map (hook_trace E ?w' obj) evs)\<rparr>)"
    using Cons.prems by (intro Cons.IH) simp_all
  finally show ?case by simp
qed

subsection \<open>The example states, evaluated\<close>

lemmas eval_defs =
  with_args_def ctx_callback_set_def ctx_check_def luaL_checkudata_def index_value_def
  lua_isstring_def lua_tolstring_def c_str_def callback_type_from_string_def D_def
  callback_set_store_def lua_isfunction_def luaL_ref_def fresh_ref_def lua_pop_def
  callback_type_defs mosq__pstatus_def push_defs codec_call_def ctx_update_def Let_def
  LUA_REFNIL_def

lemma new_client_eq:
  "new_client =
     \<lparr>stack = [LString ''client'', LUserdata 0], registry = [],
      metatables = (\<lambda>x. None)(Of_udata 0 := Some Meta_ctx), next_table = 0,
      udata = (\<lambda>a. zero_ctx)
        (0 := \<lparr>ctx_L = NULL, mosq = 1, on_connect = - 1, on_disconnect = - 1,
               on_publish = - 1, on_message = - 1, on_subscribe = - 1,
               on_unsubscribe = - 1, on_log = - 1\<rparr>),
      next_udata = 1,
      codec_calls = [Mosquitto_new (Some ''client'') True 0], calls = []\<rparr>"
  by (simp add: new_client_def mosq_new_def with_args_def empty_world_def luaL_optstring_def
      lua_isnoneornil_def index_value_def luaL_checklstring_def lua_tolstring_def c_str_def
      lua_isboolean_def lua_newuserdata_def push_defs codec_call_def ctx_update_def
      ctx__on_init_def luaL_getmetatable_def lua_setmetatable_def lua_pop_def zero_ctx_def
      LUA_REFNIL_def Let_def)

lemma hooked_client_eq:
  "hooked_client =
     \<lparr>stack = [LUserdata 0, LString ''ON_MESSAGE'', LBoolean True],
      registry = [(3, LFunction 9), (2, LFunction 8), (1, LFunction 7)],
      metatables = (\<lambda>x. None)(Of_udata 0 := Some Meta_ctx), next_table = 0,
      udata = (\<lambda>a. zero_ctx)
        (0 := \<lparr>ctx_L = NULL, mosq = 1, on_connect = 1, on_disconnect = 2,
               on_publish = - 1, on_message = 3, on_subscribe = - 1,
               on_unsubscribe = - 1, on_log = - 1\<rparr>),
      next_udata = 1,
      codec_calls =
        [Mosquitto_new (Some ''client'') True 0, Mosquitto_callback_set 1 16,
         Mosquitto_callback_set 1 224, Mosquitto_callback_set 1 1],
      calls = []\<rparr>"
  by (simp add: hooked_client_def new_client_eq eval_defs)

lemma in_loop_eq:
  "in_loop =
     \<lparr>stack = [LUserdata 0],
      registry = [(3, LFunction 9), (2, LFunction 8), (1, LFunction 7)],
      metatables = (\<lambda>x. None)(Of_udata 0 := Some Meta_ctx), next_table = 0,
      udata = (\<lambda>a. zero_ctx)
        (0 := \<lparr>ctx_L = Lua_state, mosq = 1, on_connect = 1, on_disconnect = 2,
               on_publish = - 1, on_message = 3, on_subscribe = - 1,
               on_unsubscribe = - 1, on_log = - 1\<rparr>),
      next_udata = 1,
      codec_calls =
        [Mosquitto_new (Some ''client'') True 0, Mosquitto_callback_set 1 16,
         Mosquitto_callback_set 1 224, Mosquitto_callback_set 1 1],
      calls = []\<rparr>"
  by (simp add: in_loop_def hooked_client_eq with_args_def ctx_update_def)

subsection \<open>Errors raised by hooks\<close>

text \<open>
  Claim C3: for every event kind and every registered hook, an error the hook raises
  while it is dispatched is caught at the dispatch boundary and discarded.  Whatever
  the behaviour \<open>H\<close> of the Lua functions is (each call may return or raise), the
  callback of every event returns, and a loop step that dispatches the events \<open>evs\<close>
  runs to its end: the hook of every one of the events is invoked, and the state
  differs from the one before only by the record of these invocations (the stack, the
  registry, the context and the codec are as they were).  The right-hand sides do not
  mention \<open>H\<close>: the state is the one that is reached when no hook raises.  The
  back-reference is bound, as it is during a loop call, and the registry holds what
  \<^verbatim>\<open>ctx_callback_set\<close> stored.
\<close>

theorem hook_errors_are_caught:
  assumes "ctx_L (udata w obj) = Lua_state" and "no_cfunction w"
  shows "dispatch E H obj ev w = Some (w\<lparr>calls := calls w @ hook_trace E w obj ev\<rparr>)
       \<and> run_events E H obj evs w =
           Some (w\<lparr>calls := calls w @ concat (map (hook_trace E w obj) evs)\<rparr>)"
  using assms by (simp add: dispatch_eq run_events_eq)

theorem hook_errors_are_caught_witness:
  "ctx_L (udata in_loop 0) = Lua_state \<and> no_cfunction in_loop
   \<and> dispatch example_env always_raises 0 (Ev_message example_message) in_loop =
       Some (in_loop\<lparr>calls :=
         [(9, [LNumber 3, LString ''a/b'', LString ''hi'', LNumber 1, LBoolean False])]\<rparr>)
   \<and> run_events example_env always_raises 0
         [Ev_connect 0, Ev_message example_message, Ev_publish 4, Ev_disconnect 7] in_loop =
       Some (in_loop\<lparr>calls :=
         [(7, [LBoolean True, LNumber 0, LString ''connection accepted'']),
          (9, [LNumber 3, LString ''a/b'', LString ''hi'', LNumber 1, LBoolean False]),
          (8, [LBoolean False, LNumber 7, LString ''unexpected disconnect''])]\<rparr>)"
proof -
  have b: "ctx_L (udata in_loop 0) = Lua_state" by (simp add: in_loop_eq)
  have n: "no_cfunction in_loop" by (simp add: in_loop_eq no_cfunction_def is_cfunction_def)
  have tr:
    "hook_trace example_env in_loop 0 (Ev_connect 0) =
       [(7, [LBoolean True, LNumber 0, LString ''connection accepted''])]"
    "hook_trace example_env in_loop 0 (Ev_message example_message) =
       [(9, [LNumber 3, LString ''a/b'', LString ''hi'', LNumber 1, LBoolean False])]"
    "hook_trace example_env in_loop 0 (Ev_publish 4) = []"
    "hook_trace example_env in_loop 0 (Ev_disconnect 7) =
       [(8, [LBoolean False, LNumber 7, LString ''unexpected disconnect''])]"
    by (simp_all add: hook_trace_def in_loop_eq registry_get_def invocation_def
          connect_reason_def disconnect_reason_def example_message_def c_str_def)
  have c: "calls in_loop = []" by (simp add: in_loop_eq)
  show ?thesis
    using hook_errors_are_caught [OF b n, of example_env always_raises
        "Ev_message example_message"
        "[Ev_connect 0, Ev_message example_message, Ev_publish 4, Ev_disconnect 7]"]
    by (simp add: b n tr c)
qed

subsection \<open>The arguments of the connect and disconnect hooks\<close>

text \<open>
  Claim C6: when the connect handshake resolves with the broker's return code \<open>rc\<close>,
  the connect hook is invoked with three arguments: the boolean that is true exactly
  when \<open>rc\<close> is 0, the code \<open>rc\<close> itself, and the reason: "connection accepted" for
  0, the specific refusal for 1 to 6, and "reserved for future use" for every other
  code.  The hook is the Lua function \<open>k\<close> that the context's \<^verbatim>\<open>on_connect\<close>
  reference denotes; the call is the only change of the state.
\<close>

theorem connect_hook_arguments:
  assumes "ctx_L (udata w obj) = Lua_state"
    and "registry_get w (on_connect (udata w obj)) = LFunction k"
  shows "ctx_on_connect E H obj rc w =
     Some (w\<lparr>calls := calls w @
       [(k, [LBoolean (rc = 0), LNumber rc,
             LString
               (if rc = 0 then ''connection accepted''
                else if rc = 1 then ''connection refused - incorrect protocol version''
                else if rc = 2 then ''connection refused - invalid client identifier''
                else if rc = 3 then ''connection refused - server unavailable''
                else if rc = 4 then ''connection refused - bad username or password''
                else if rc = 5 then ''connection refused - not authorised''
                else if rc = 6 then ''connection refused - TLS error''
                else ''reserved for future use'')])]\<rparr>)"
  using assms
  by (simp add: ctx_on_connect_eq hook_trace_def invocation_def connect_reason_def)

theorem connect_hook_arguments_witness:
  "ctx_L (udata in_loop 0) = Lua_state
   \<and> registry_get in_loop (on_connect (udata in_loop 0)) = LFunction 7
   \<and> ctx_on_connect example_env never_raises 0 5 in_loop =
       Some (in_loop\<lparr>calls :=
         [(7, [LBoolean False, LNumber 5, LString ''connection refused - not authorised''])]\<rparr>)
   \<and> ctx_on_connect example_env never_raises 0 0 in_loop =
       Some (in_loop\<lparr>calls :=
         [(7, [LBoolean True, LNumber 0, LString ''connection accepted''])]\<rparr>)
   \<and> ctx_on_connect example_env never_raises 0 9 in_loop =
       Some (in_loop\<lparr>calls :=
         [(7, [LBoolean False, LNumber 9, LString ''reserved for future use''])]\<rparr>)"
proof -
  have b: "ctx_L (udata in_loop 0) = Lua_state" by (simp add: in_loop_eq)
  have r: "registry_get in_loop (on_connect (udata in_loop 0)) = LFunction 7"
    by (simp add: in_loop_eq registry_get_def)
  have c: "calls in_loop = []" by (simp add: in_loop_eq)
  show ?thesis
    using connect_hook_arguments [OF b r, of example_env never_raises 5]
      connect_hook_arguments [OF b r, of example_env never_raises 0]
      connect_hook_arguments [OF b r, of example_env never_raises 9]
    by (simp add: b r c)
qed

text \<open>
  Claim C7: when the disconnect hook fires with the raw code \<open>rc\<close>, it receives
  success = true and the reason "client-initiated disconnect" exactly when \<open>rc\<close> is 0;
  for every other \<open>rc\<close> it receives success = false and the reason "unexpected
  disconnect"; the code argument is \<open>rc\<close> in both cases.
\<close>

theorem disconnect_hook_arguments:
  assumes "ctx_L (udata w obj) = Lua_state"
    and "registry_get w (on_disconnect (udata w obj)) = LFunction k"
  shows "ctx_on_disconnect E H obj rc w =
     Some (w\<lparr>calls := calls w @
       [(k, [LBoolean (rc = 0), LNumber rc,
             LString (if rc = 0 then ''client-initiated disconnect''
                      else ''unexpected disconnect'')])]\<rparr>)"
  using assms
  by (simp add: ctx_on_disconnect_eq hook_trace_def invocation_def disconnect_reason_def)

theorem disconnect_hook_arguments_witness:
  "ctx_L (udata in_loop 0) = Lua_state
   \<and> registry_get in_loop (on_disconnect (udata in_loop 0)) = LFunction 8
   \<and> ctx_on_disconnect example_env never_raises 0 0 in_loop =
       Some (in_loop\<lparr>calls :=
         [(8, [LBoolean True, LNumber 0, LString ''client-initiated disconnect''])]\<rparr>)
   \<and> ctx_on_disconnect example_env never_raises 0 7 in_loop =
       Some (in_loop\<lparr>calls :=
         [(8, [LBoolean False, LNumber 7, LString ''unexpected disconnect''])]\<rparr>)"
proof -
  have b: "ctx_L (udata in_loop 0) = Lua_state" by (simp add: in_loop_eq)
  have r: "registry_get in_loop (on_disconnect (udata in_loop 0)) = LFunction 8"
    by (simp add: in_loop_eq registry_get_def)
  have c: "calls in_loop = []" by (simp add: in_loop_eq)
  show ?thesis
    using disconnect_hook_arguments [OF b r, of example_env never_raises 0]
      disconnect_hook_arguments [OF b r, of example_env never_raises 7]
    by (simp add: b r c)
qed

subsection \<open>The back-reference during and after a loop call\<close>

lemma hook_ref_ctx_L [simp]: "hook_ref (c\<lparr>ctx_L := x\<rparr>) ev = hook_ref c ev"
  by (cases ev) simp_all

text \<open>
  The part the five operations share: bind \<^verbatim>\<open>ctx->L\<close>, call the codec (which
  reports \<open>evs\<close>), clear \<^verbatim>\<open>ctx->L\<close>, hand \<open>rc\<close> to the status handler.
\<close>

lemma run_events_in_loop:
  assumes "no_cfunction w"
  shows
    "run_events E H a evs (codec_call c (ctx_update a (\<lambda>x. x\<lparr>ctx_L := Lua_state\<rparr>) w)) =
       Some ((codec_call c (ctx_update a (\<lambda>x. x\<lparr>ctx_L := Lua_state\<rparr>) w))
               \<lparr>calls := calls w @ concat (map (hook_trace E w a) evs)\<rparr>)"
proof -
  let ?w2 = "codec_call c (ctx_update a (\<lambda>x. x\<lparr>ctx_L := Lua_state\<rparr>) w)"
  have b: "ctx_L (udata ?w2 a) = Lua_state" by (simp add: codec_call_def ctx_update_def)
  have n: "no_cfunction ?w2"
    using assms by (simp add: no_cfunction_def codec_call_def ctx_update_def)
  have h: "hook_trace E ?w2 a = hook_trace E w a"
    by (rule ext) (simp add: hook_trace_def registry_get_def codec_call_def ctx_update_def)
  have c: "calls ?w2 = calls w" by (simp add: codec_call_def ctx_update_def)
  show ?thesis
    using run_events_eq [OF b n, of E H evs] by (simp only: h c)
qed

lemma loop_final:
  "ctx_update a (\<lambda>x. x\<lparr>ctx_L := NULL\<rparr>)
     ((codec_call c (ctx_update a (\<lambda>x. x\<lparr>ctx_L := Lua_state\<rparr>) w))\<lparr>calls := tr\<rparr>) =
   w\<lparr>udata := (udata w)(a := (udata w a)\<lparr>ctx_L := NULL\<rparr>),
     codec_calls := codec_calls w @ [c], calls := tr\<rparr>"
  by (rule world.equality) (simp_all add: codec_call_def ctx_update_def)

lemma mosq_ctx_update [simp]:
  "mosq (udata (ctx_update a (\<lambda>x. x\<lparr>ctx_L := v\<rparr>) w) a) = mosq (udata w a)"
  by (simp add: ctx_update_def)

lemma mosq_loop_eq:
  assumes "no_cfunction w" and "ctx_check w 1 = Inr a"
    and "luaL_optinteger E w 2 (- 1) = Inr t" and "luaL_optinteger E w 3 1 = Inr p"
  shows "mosq_loop E H forever evs rc w =
     mosq__pstatus E rc
       (w\<lparr>udata := (udata w)(a := (udata w a)\<lparr>ctx_L := NULL\<rparr>),
          codec_calls := codec_calls w @
            [if forever then Mosquitto_loop_forever (mosq (udata w a)) (c_int t) (c_int p)
             else Mosquitto_loop (mosq (udata w a)) (c_int t) (c_int p)],
          calls := calls w @ concat (map (hook_trace E w a) evs)\<rparr>)"
  using assms(2-4)
  by (simp add: mosq_loop_def Let_def run_events_in_loop [OF assms(1)] loop_final)

lemma ctx_loop_read_eq:
  assumes "no_cfunction w" and "ctx_check w 1 = Inr a" and "luaL_optinteger E w 2 1 = Inr p"
  shows "ctx_loop_read E H evs rc w =
     mosq__pstatus E rc
       (w\<lparr>udata := (udata w)(a := (udata w a)\<lparr>ctx_L := NULL\<rparr>),
          codec_calls := codec_calls w @ [Mosquitto_loop_read (mosq (udata w a)) (c_int p)],
          calls := calls w @ concat (map (hook_trace E w a) evs)\<rparr>)"
  using assms(2-3)
  by (simp add: ctx_loop_read_def Let_def run_events_in_loop [OF assms(1)] loop_final)

lemma ctx_loop_write_eq:
  assumes "no_cfunction w" and "ctx_check w 1 = Inr a" and "luaL_optinteger E w 2 1 = Inr p"
  shows "ctx_loop_write E H evs rc w =
     mosq__pstatus E rc
       (w\<lparr>udata := (udata w)(a := (udata w a)\<lparr>ctx_L := NULL\<rparr>),
          codec_calls := codec_calls w @ [Mosquitto_loop_write (mosq (udata w a)) (c_int p)],
          calls := calls w @ concat (map (hook_trace E w a) evs)\<rparr>)"
  using assms(2-3)
  by (simp add: ctx_loop_write_def Let_def run_events_in_loop [OF assms(1)] loop_final)

lemma ctx_loop_misc_eq:
  assumes "no_cfunction w" and "ctx_check w 1 = Inr a"
  shows "ctx_loop_misc E H evs rc w =
     mosq__pstatus E rc
       (w\<lparr>udata := (udata w)(a := (udata w a)\<lparr>ctx_L := NULL\<rparr>),
          codec_calls := codec_calls w @ [Mosquitto_loop_misc (mosq (udata w a))],
          calls := calls w @ concat (map (hook_trace E w a) evs)\<rparr>)"
  using assms(2)
  by (simp add: ctx_loop_misc_def Let_def run_events_in_loop [OF assms(1)] loop_final)

lemma mosq_loop_ok:
  assumes n: "no_cfunction w"
  shows "loop_call_ok w (mosq_loop E H forever evs rc w)"
proof (cases "ctx_check w 1")
  case (Inl e)
  then show ?thesis by (simp add: mosq_loop_def loop_call_ok_def)
next
  case a: (Inr a)
  show ?thesis
  proof (cases "luaL_optinteger E w 2 (- 1)")
    case (Inl e)
    then show ?thesis using a by (simp add: mosq_loop_def loop_call_ok_def)
  next
    case t: (Inr t)
    show ?thesis
    proof (cases "luaL_optinteger E w 3 1")
      case (Inl e)
      then show ?thesis using a t by (simp add: mosq_loop_def loop_call_ok_def)
    next
      case (Inr p)
      then show ?thesis
        using a by (simp add: mosq_loop_eq [OF n a t Inr] loop_call_ok_def)
    qed
  qed
qed

lemma ctx_loop_read_ok:
  assumes n: "no_cfunction w"
  shows "loop_call_ok w (ctx_loop_read E H evs rc w)"
proof (cases "ctx_check w 1")
  case (Inl e)
  then show ?thesis by (simp add: ctx_loop_read_def loop_call_ok_def)
next
  case a: (Inr a)
  show ?thesis
  proof (cases "luaL_optinteger E w 2 1")
    case (Inl e)
    then show ?thesis using a by (simp add: ctx_loop_read_def loop_call_ok_def)
  next
    case (Inr p)
    then show ?thesis
      using a by (simp add: ctx_loop_read_eq [OF n a Inr] loop_call_ok_def)
  qed
qed

lemma ctx_loop_write_ok:
  assumes n: "no_cfunction w"
  shows "loop_call_ok w (ctx_loop_write E H evs rc w)"
proof (cases "ctx_check w 1")
  case (Inl e)
  then show ?thesis by (simp add: ctx_loop_write_def loop_call_ok_def)
next
  case a: (Inr a)
  show ?thesis
  proof (cases "luaL_optinteger E w 2 1")
    case (Inl e)
    then show ?thesis using a by (simp add: ctx_loop_write_def loop_call_ok_def)
  next
    case (Inr p)
    then show ?thesis
      using a by (simp add: ctx_loop_write_eq [OF n a Inr] loop_call_ok_def)
  qed
qed

lemma ctx_loop_misc_ok:
  assumes n: "no_cfunction w"
  shows "loop_call_ok w (ctx_loop_misc E H evs rc w)"
proof (cases "ctx_check w 1")
  case (Inl e)
  then show ?thesis by (simp add: ctx_loop_misc_def loop_call_ok_def)
next
  case a: (Inr a)
  then show ?thesis
    by (simp add: ctx_loop_misc_eq [OF n a] loop_call_ok_def)
qed

lemma ctx_M_loop_ok:
  assumes "no_cfunction w"
  shows "loop_call_ok w (ctx_M_loop m E H evs rc w)"
  using assms
  by (cases m)
     (simp_all add: ctx_loop_def ctx_loop_forever_def mosq_loop_ok ctx_loop_read_ok
        ctx_loop_write_ok ctx_loop_misc_ok)

lemma ctx_loop_start_binds:
  assumes "ctx_check w 1 = Inr a"
  shows "ctx_L (udata (snd (ctx_loop_start E rc w)) a) = Lua_state"
  using assms by (simp add: ctx_loop_start_def Let_def codec_call_def ctx_update_def)

lemma ctx_loop_stop_clears:
  assumes "ctx_check w 1 = Inr a"
  shows "ctx_L (udata (snd (ctx_loop_stop E rc w)) a) = NULL"
  using assms by (simp add: ctx_loop_stop_def Let_def codec_call_def ctx_update_def)

text \<open>
  Claim C5, as stated, includes the background-thread mode started by
  \<^verbatim>\<open>loop_start\<close>.  \<^verbatim>\<open>ctx_loop_start\<close> binds the back-reference and returns with
  it still set: on the new client, whose back-reference is unset, the call returns true
  and the back-reference is set afterwards.
\<close>

theorem loop_start_leaves_back_reference_set:
  "ctx_L (udata (with_args [LUserdata 0] new_client) 0) = NULL
   \<and> results (ctx_loop_start example_env MOSQ_ERR_SUCCESS (with_args [LUserdata 0] new_client))
       = Returns [LBoolean True]
   \<and> ctx_L (udata (snd (ctx_loop_start example_env MOSQ_ERR_SUCCESS
         (with_args [LUserdata 0] new_client))) 0) = Lua_state"
  by (simp add: new_client_eq ctx_loop_start_def with_args_def ctx_check_def
        luaL_checkudata_def index_value_def ctx_update_def codec_call_def mosq__pstatus_def
        results_def push_defs Let_def)

lemma dispatch_unbound:
  assumes "ctx_L (udata v a) = NULL"
  shows "dispatch E H a ev v = None"
  using assms
  by (cases ev)
     (simp_all add: ctx_on_connect_def ctx_on_disconnect_def ctx_on_publish_def
        ctx_on_message_def ctx_on_subscribe_def ctx_on_unsubscribe_def ctx_on_log_def Let_def)

lemma ctx_loop_start_returns:
  assumes "ctx_check w 1 = Inr a"
  shows "results (ctx_loop_start E MOSQ_ERR_SUCCESS w) = Returns [LBoolean True]"
  using assms by (simp add: ctx_loop_start_def Let_def results_pstatus)

lemma ctx_loop_stop_returns:
  assumes "ctx_check w 1 = Inr a"
  shows "results (ctx_loop_stop E MOSQ_ERR_SUCCESS w) = Returns [LBoolean True]"
  using assms by (simp add: ctx_loop_stop_def Let_def results_pstatus)

text \<open>
  Claim C5, amended.  The hooks are Lua functions that return or raise without
  calling an operation of the binding themselves (a hook that called a loop operation
  of its own instance would clear the back-reference in the middle of the outer call).
  Under that condition, for each of loop, loop_forever, loop_read, loop_write and
  loop_misc, called on an instance with integer arguments that are accepted: the
  back-reference is bound when the codec is entered and cleared by the time the
  operation returns control.  Precisely, delivering an event to an instance whose
  back-reference is unset is undefined; the call is defined for every list of events
  the codec reports while it runs, and it ends in the status handler on the state it
  started from with three changes: the back-reference of the instance is unset, the
  one call of the codec is recorded (its integer arguments converted to \<^verbatim>\<open>int\<close>),
  and the hook of every event has been invoked, in order.  Whether or not a call is
  accepted, it is defined and a back-reference that was unset before it is unset after
  it.  A \<^verbatim>\<open>loop_start\<close> that succeeds returns true with the back-reference of its
  instance set; a \<^verbatim>\<open>loop_stop\<close> that succeeds returns true with it unset.
\<close>

theorem loop_back_reference:
  assumes "no_cfunction w" and "ctx_check w 1 = Inr a"
  shows
    "(\<forall>ev v. ctx_L (udata v a) = NULL \<longrightarrow> dispatch E H a ev v = None)
   \<and> (\<forall>t p. luaL_optinteger E w 2 (- 1) = Inr t \<and> luaL_optinteger E w 3 1 = Inr p \<longrightarrow>
          ctx_loop E H evs rc w =
            mosq__pstatus E rc
              (w\<lparr>udata := (udata w)(a := (udata w a)\<lparr>ctx_L := NULL\<rparr>),
                 codec_calls := codec_calls w @
                   [Mosquitto_loop (mosq (udata w a)) (c_int t) (c_int p)],
                 calls := calls w @ concat (map (hook_trace E w a) evs)\<rparr>)
        \<and> ctx_loop_forever E H evs rc w =
            mosq__pstatus E rc
              (w\<lparr>udata := (udata w)(a := (udata w a)\<lparr>ctx_L := NULL\<rparr>),
                 codec_calls := codec_calls w @
                   [Mosquitto_loop_forever (mosq (udata w a)) (c_int t) (c_int p)],
                 calls := calls w @ concat (map (hook_trace E w a) evs)\<rparr>))
   \<and> (\<forall>p. luaL_optinteger E w 2 1 = Inr p \<longrightarrow>
          ctx_loop_read E H evs rc w =
            mosq__pstatus E rc
              (w\<lparr>udata := (udata w)(a := (udata w a)\<lparr>ctx_L := NULL\<rparr>),
                 codec_calls := codec_calls w @
                   [Mosquitto_loop_read (mosq (udata w a)) (c_int p)],
                 calls := calls w @ concat (map (hook_trace E w a) evs)\<rparr>)
        \<and> ctx_loop_write E H evs rc w =
            mosq__pstatus E rc
              (w\<lparr>udata := (udata w)(a := (udata w a)\<lparr>ctx_L := NULL\<rparr>),
                 codec_calls := codec_calls w @
                   [Mosquitto_loop_write (mosq (udata w a)) (c_int p)],
                 calls := calls w @ concat (map (hook_trace E w a) evs)\<rparr>))
   \<and> ctx_loop_misc E H evs rc w =
        mosq__pstatus E rc
          (w\<lparr>udata := (udata w)(a := (udata w a)\<lparr>ctx_L := NULL\<rparr>),
             codec_calls := codec_calls w @ [Mosquitto_loop_misc (mosq (udata w a))],
             calls := calls w @ concat (map (hook_trace E w a) evs)\<rparr>)
   \<and> (\<forall>m. fst (ctx_M_loop m E H evs rc w) \<noteq> Undefined
          \<and> (\<forall>b. ctx_L (udata w b) = NULL
                \<longrightarrow> ctx_L (udata (snd (ctx_M_loop m E H evs rc w)) b) = NULL))
   \<and> results (ctx_loop_start E MOSQ_ERR_SUCCESS w) = Returns [LBoolean True]
   \<and> ctx_L (udata (snd (ctx_loop_start E MOSQ_ERR_SUCCESS w)) a) = Lua_state
   \<and> results (ctx_loop_stop E MOSQ_ERR_SUCCESS w) = Returns [LBoolean True]
   \<and> ctx_L (udata (snd (ctx_loop_stop E MOSQ_ERR_SUCCESS w)) a) = NULL"
proof -
  note n = assms(1) and a = assms(2)
  have unbound: "\<forall>ev v. ctx_L (udata v a) = NULL \<longrightarrow> dispatch E H a ev v = None"
    by (simp add: dispatch_unbound)
  have loop: "\<forall>t p. luaL_optinteger E w 2 (- 1) = Inr t \<and> luaL_optinteger E w 3 1 = Inr p \<longrightarrow>
          ctx_loop E H evs rc w =
            mosq__pstatus E rc
              (w\<lparr>udata := (udata w)(a := (udata w a)\<lparr>ctx_L := NULL\<rparr>),
                 codec_calls := codec_calls w @
                   [Mosquitto_loop (mosq (udata w a)) (c_int t) (c_int p)],
                 calls := calls w @ concat (map (hook_trace E w a) evs)\<rparr>)
        \<and> ctx_loop_forever E H evs rc w =
            mosq__pstatus E rc
              (w\<lparr>udata := (udata w)(a := (udata w a)\<lparr>ctx_L := NULL\<rparr>),
                 codec_calls := codec_calls w @
                   [Mosquitto_loop_forever (mosq (udata w a)) (c_int t) (c_int p)],
                 calls := calls w @ concat (map (hook_trace E w a) evs)\<rparr>)"
  proof (intro allI impI, elim conjE)
    fix t p
    assume t: "luaL_optinteger E w 2 (- 1) = Inr t" and p: "luaL_optinteger E w 3 1 = Inr p"
    show "ctx_loop E H evs rc w =
            mosq__pstatus E rc
              (w\<lparr>udata := (udata w)(a := (udata w a)\<lparr>ctx_L := NULL\<rparr>),
                 codec_calls := codec_calls w @
                   [Mosquitto_loop (mosq (udata w a)) (c_int t) (c_int p)],
                 calls := calls w @ concat (map (hook_trace E w a) evs)\<rparr>)
        \<and> ctx_loop_forever E H evs rc w =
            mosq__pstatus E rc
              (w\<lparr>udata := (udata w)(a := (udata w a)\<lparr>ctx_L := NULL\<rparr>),
                 codec_calls := codec_calls w @
                   [Mosquitto_loop_forever (mosq (udata w a)) (c_int t) (c_int p)],
                 calls := calls w @ concat (map (hook_trace E w a) evs)\<rparr>)"
      by (simp add: ctx_loop_def ctx_loop_forever_def mosq_loop_eq [OF n a t p])
  qed
  have rw: "\<forall>p. luaL_optinteger E w 2 1 = Inr p \<longrightarrow>
          ctx_loop_read E H evs rc w =
            mosq__pstatus E rc
              (w\<lparr>udata := (udata w)(a := (udata w a)\<lparr>ctx_L := NULL\<rparr>),
                 codec_calls := codec_calls w @
                   [Mosquitto_loop_read (mosq (udata w a)) (c_int p)],
                 calls := calls w @ concat (map (hook_trace E w a) evs)\<rparr>)
        \<and> ctx_loop_write E H evs rc w =
            mosq__pstatus E rc
              (w\<lparr>udata := (udata w)(a := (udata w a)\<lparr>ctx_L := NULL\<rparr>),
                 codec_calls := codec_calls w @
                   [Mosquitto_loop_write (mosq (udata w a)) (c_int p)],
                 calls := calls w @ concat (map (hook_trace E w a) evs)\<rparr>)"
    by (intro allI impI conjI) (rule ctx_loop_read_eq [OF n a], assumption,
        rule ctx_loop_write_eq [OF n a], assumption)
  have any: "\<forall>m. fst (ctx_M_loop m E H evs rc w) \<noteq> Undefined
          \<and> (\<forall>b. ctx_L (udata w b) = NULL
                \<longrightarrow> ctx_L (udata (snd (ctx_M_loop m E H evs rc w)) b) = NULL)"
    using ctx_M_loop_ok [OF n] by (simp add: loop_call_ok_def)
  show ?thesis
    using unbound loop rw ctx_loop_misc_eq [OF n a, of E H evs rc] any
      ctx_loop_start_returns [OF a, of E] ctx_loop_start_binds [OF a, of E MOSQ_ERR_SUCCESS]
      ctx_loop_stop_returns [OF a, of E] ctx_loop_stop_clears [OF a, of E MOSQ_ERR_SUCCESS]
    by (intro conjI) assumption+
qed

theorem loop_back_reference_witness:
  "no_cfunction wide_argument
   \<and> ctx_check wide_argument 1 = Inr 0
   \<and> luaL_optinteger example_env wide_argument 2 (- 1) = Inr 4294967301
   \<and> luaL_optinteger example_env wide_argument 3 1 = Inr 1
   \<and> luaL_optinteger example_env wide_argument 2 1 = Inr 4294967301
   \<and> ctx_L (udata wide_argument 0) = NULL
   \<and> dispatch example_env always_raises 0 (Ev_connect 0) wide_argument = None
   \<and> results (ctx_loop example_env always_raises [Ev_connect 0, Ev_disconnect 7]
        MOSQ_ERR_SUCCESS wide_argument) = Returns [LBoolean True]
   \<and> ctx_L (udata (snd (ctx_loop example_env always_raises [Ev_connect 0, Ev_disconnect 7]
        MOSQ_ERR_SUCCESS wide_argument)) 0) = NULL
   \<and> codec_calls (snd (ctx_loop example_env always_raises [Ev_connect 0, Ev_disconnect 7]
        MOSQ_ERR_SUCCESS wide_argument)) =
        codec_calls wide_argument @ [Mosquitto_loop 1 5 1]
   \<and> calls (snd (ctx_loop example_env always_raises [Ev_connect 0, Ev_disconnect 7]
        MOSQ_ERR_SUCCESS wide_argument)) =
        [(7, [LBoolean True, LNumber 0, LString ''connection accepted'']),
         (8, [LBoolean False, LNumber 7, LString ''unexpected disconnect''])]
   \<and> codec_calls (snd (ctx_loop_read example_env always_raises [Ev_connect 0, Ev_disconnect 7]
        MOSQ_ERR_SUCCESS wide_argument)) =
        codec_calls wide_argument @ [Mosquitto_loop_read 1 5]
   \<and> ctx_L (udata (snd (ctx_loop_start example_env MOSQ_ERR_SUCCESS wide_argument)) 0) =
        Lua_state
   \<and> ctx_L (udata (snd (ctx_loop_stop example_env MOSQ_ERR_SUCCESS wide_argument)) 0) = NULL"
proof -
  have n: "no_cfunction wide_argument"
    by (simp add: wide_argument_def hooked_client_eq with_args_def no_cfunction_def
          is_cfunction_def)
  have a: "ctx_check wide_argument 1 = Inr 0"
    by (simp add: wide_argument_def hooked_client_eq with_args_def ctx_check_def
          luaL_checkudata_def index_value_def)
  have z: "ctx_L (udata wide_argument 0) = NULL" "mosq (udata wide_argument 0) = 1"
    "calls wide_argument = []"
    by (simp_all add: wide_argument_def hooked_client_eq with_args_def)
  have opts: "luaL_optinteger example_env wide_argument 2 (- 1) = Inr 4294967301"
    "luaL_optinteger example_env wide_argument 3 1 = Inr 1"
    "luaL_optinteger example_env wide_argument 2 1 = Inr 4294967301"
    by (simp_all add: wide_argument_def hooked_client_eq with_args_def luaL_optinteger_def
          luaL_checkinteger_def lua_tointegerx_def lua_isnoneornil_def index_value_def)
  have c: "c_int 4294967301 = 5" "c_int 1 = 1"
    by (simp_all add: c_int_def)
  have tr:
    "hook_trace example_env wide_argument 0 (Ev_connect 0) =
       [(7, [LBoolean True, LNumber 0, LString ''connection accepted''])]"
    "hook_trace example_env wide_argument 0 (Ev_disconnect 7) =
       [(8, [LBoolean False, LNumber 7, LString ''unexpected disconnect''])]"
    by (simp_all add: hook_trace_def wide_argument_def hooked_client_eq with_args_def
          registry_get_def invocation_def connect_reason_def disconnect_reason_def)
  show ?thesis
    using loop_back_reference [OF n a, where E = example_env and H = always_raises
        and evs = "[Ev_connect 0, Ev_disconnect 7]" and rc = MOSQ_ERR_SUCCESS]
      n a z opts
    by (simp add: c tr results_pstatus del: dispatch.simps)
qed

subsection \<open>C strings\<close>

lemma strcmp_eq_0 [simp]: "strcmp a b = 0 \<longleftrightarrow> a = b"
  by (induction a b rule: strcmp.induct) auto

lemma strstr_Some_0: "strstr s needle = Some 0 \<longleftrightarrow> take (length needle) s = needle"
  by (cases s) auto

declare digits10.simps [simp del]

lemma digits10_first: "\<exists>c cs. digits10 n = c # cs \<and> c \<noteq> CHR ''O'' \<and> c \<noteq> CHR 0x00"
proof (induction n rule: digits10.induct)
  case (1 n)
  show ?case
  proof (cases "n < 10")
    case True
    then have d: "digits10 n = [char_of (48 + n)]"
      by (simp add: digits10.simps [of n])
    have code: "of_char (char_of (48 + n) :: char) = 48 + n"
      using True by simp
    have "char_of (48 + n) \<noteq> CHR ''O''"
    proof
      assume "char_of (48 + n) = CHR ''O''"
      then have "(of_char (char_of (48 + n) :: char) :: nat) = of_char CHR ''O''" by simp
      with code True show False by simp
    qed
    moreover have "char_of (48 + n) \<noteq> CHR 0x00"
    proof
      assume "char_of (48 + n) = CHR 0x00"
      then have "(of_char (char_of (48 + n) :: char) :: nat) = of_char CHR 0x00" by simp
      with code show False by simp
    qed
    ultimately show ?thesis using d by simp
  next
    case False
    with 1 obtain c cs where "digits10 (n div 10) = c # cs" "c \<noteq> CHR ''O''" "c \<noteq> CHR 0x00"
      by blast
    with False show ?thesis
      by (simp add: digits10.simps [of n])
  qed
qed

lemma number2str_first:
  "\<exists>c cs. lua_number2str n = c # cs \<and> c \<noteq> CHR ''O'' \<and> c \<noteq> CHR 0x00"
  using digits10_first by (simp add: lua_number2str_def)

lemma number_is_no_callback_name:
  "callback_type_from_string E (c_str (lua_number2str n)) = - 1"
proof -
  obtain c cs where "lua_number2str n = c # cs" "c \<noteq> CHR ''O''" "c \<noteq> CHR 0x00"
    using number2str_first by blast
  then show ?thesis
    by (simp add: callback_type_from_string_def c_str_def strstr_Some_0)
qed

text \<open>The names \<^verbatim>\<open>callback_type_from_string\<close> recognises, and their values.\<close>

lemma callback_type_from_string_eq:
  "callback_type_from_string E s =
     (if s = ''ON_CONNECT'' then CONNECT
      else if s = ''ON_DISCONNECT'' then DISCONNECT
      else if s = ''ON_PUBLISH'' then PUBLISH
      else if s = ''ON_MESSAGE'' then MESSAGE
      else if s = ''ON_SUBSCRIBE'' then SUBSCRIBE
      else if s = ''ON_UNSUBSCRIBE'' then UNSUBSCRIBE
      else if s = ''ON_LOG'' then LOG
      else - 1)"
proof (cases "take (length ''ON_'') s = ''ON_''")
  case True
  then have "s \<noteq> ''LOG_NONE''" "s \<noteq> ''LOG_INFO''" "s \<noteq> ''LOG_NOTICE''" "s \<noteq> ''LOG_WARNING''"
    "s \<noteq> ''LOG_ERROR''" "s \<noteq> ''LOG_DEBUG''" "s \<noteq> ''LOG_ALL''"
    by auto
  with True show ?thesis
    by (simp add: callback_type_from_string_def strstr_Some_0 D_def eq_commute [of _ s])
next
  case False
  then have "s \<noteq> ''ON_CONNECT''" "s \<noteq> ''ON_DISCONNECT''" "s \<noteq> ''ON_PUBLISH''"
    "s \<noteq> ''ON_MESSAGE''" "s \<noteq> ''ON_SUBSCRIBE''" "s \<noteq> ''ON_UNSUBSCRIBE''" "s \<noteq> ''ON_LOG''"
    by auto
  with False show ?thesis
    by (simp add: callback_type_from_string_def strstr_Some_0)
qed

subsection \<open>Fresh references\<close>

lemma fold_max_ge: "(m :: int) \<le> fold max xs m"
proof (induction xs arbitrary: m)
  case Nil
  show ?case by simp
next
  case (Cons x xs)
  have "m \<le> max x m" by simp
  also have "\<dots> \<le> fold max xs (max x m)" by (rule Cons.IH)
  finally show ?case by simp
qed

lemma fold_max_mem: "x \<in> set xs \<Longrightarrow> (x :: int) \<le> fold max xs m"
proof (induction xs arbitrary: m)
  case Nil
  then show ?case by simp
next
  case (Cons y ys)
  show ?case
  proof (cases "x = y")
    case True
    have "x \<le> max y m" using True by simp
    also have "\<dots> \<le> fold max ys (max y m)" by (rule fold_max_ge)
    finally show ?thesis by simp
  next
    case False
    with Cons.prems have "x \<in> set ys" by simp
    then show ?thesis by (simp add: Cons.IH)
  qed
qed

lemma fresh_ref_positive: "0 < fresh_ref r"
  using fold_max_ge [of 0 "map fst r"] by (simp add: fresh_ref_def)

lemma fresh_ref_is_fresh: "e \<in> set r \<Longrightarrow> fst e \<noteq> fresh_ref r"
  using fold_max_mem [of "fst e" "map fst r" 0] by (auto simp: fresh_ref_def)

lemma unref_fresh: "filter (\<lambda>e. fst e \<noteq> fresh_ref r) r = r"
  by (simp add: filter_id_conv fresh_ref_is_fresh)

subsection \<open>Binding a hook: the kind\<close>

text \<open>
  Claim C10 says that a numeric kind is accepted exactly when it is one of the seven
  kind codes.  \<^verbatim>\<open>ctx_callback_set\<close> asks \<^verbatim>\<open>lua_isstring\<close> first, and that is
  true of every number: the number is converted to its decimal text, which
  \<^verbatim>\<open>callback_type_from_string\<close> maps to -1.  So no numeric kind is accepted, the
  kind code 16 (\<^verbatim>\<open>ON_CONNECT\<close>) included: whatever the number \<open>n\<close> and the function
  \<open>f\<close>, the call on the new client raises the argument error of the \<^verbatim>\<open>default\<close>
  branch, and the context is left as it was.
\<close>

theorem numeric_kind_is_rejected:
  "results (ctx_callback_set E (with_args [LUserdata 0, LNumber n, LFunction f] new_client))
     = Raises (Arg_error 2 ''not a proper callback type'')
   \<and> udata (snd (ctx_callback_set E
        (with_args [LUserdata 0, LNumber n, LFunction f] new_client))) = udata new_client
   \<and> results (ctx_callback_set E
        (with_args [LUserdata 0, LNumber CONNECT, LFunction f] new_client))
     = Raises (Arg_error 2 ''not a proper callback type'')"
proof -
  have "ctx_callback_set E (with_args [LUserdata 0, LNumber k, LFunction f] new_client) =
      (Raises (Arg_error 2 ''not a proper callback type''),
       new_client\<lparr>stack := [LUserdata 0, LString (lua_number2str k)]\<rparr>)" for k
    by (simp add: new_client_eq with_args_def ctx_callback_set_def ctx_check_def
          luaL_checkudata_def index_value_def lua_isstring_def lua_tolstring_def
          number_is_no_callback_name callback_set_store_def lua_isfunction_def luaL_ref_def
          fresh_ref_def lua_pop_def callback_type_defs luaL_unref_def)
  then show ?thesis by (simp add: results_def)
qed

text \<open>
  The string kinds are as the claim says: a C string is recognised exactly when it is
  one of the seven \<^verbatim>\<open>ON_\<close> names, and the names of the \<^verbatim>\<open>LOG_\<close> constants are
  not.
\<close>

lemma string_kind_recognised:
  "callback_type_from_string E s \<noteq> - 1 \<longleftrightarrow>
     s \<in> {''ON_CONNECT'', ''ON_DISCONNECT'', ''ON_PUBLISH'', ''ON_MESSAGE'', ''ON_SUBSCRIBE'',
          ''ON_UNSUBSCRIBE'', ''ON_LOG''}"
  by (simp add: callback_type_from_string_eq callback_type_defs)

lemma log_names_not_recognised:
  "s \<in> {''LOG_NONE'', ''LOG_INFO'', ''LOG_NOTICE'', ''LOG_WARNING'', ''LOG_ERROR'', ''LOG_DEBUG'',
        ''LOG_ALL''} \<Longrightarrow> callback_type_from_string E s = - 1"
  by (auto simp: callback_type_from_string_eq)

text \<open>
  A string that is none of the seven names is rejected, and the reference that was
  made for the function is released again.
\<close>

lemma callback_set_rejects_other_strings:
  assumes chk: "ctx_check w 1 = Inr a"
    and st: "stack w = [x, LString s, LFunction k]"
    and nm: "c_str s \<notin> {''ON_CONNECT'', ''ON_DISCONNECT'', ''ON_PUBLISH'', ''ON_MESSAGE'',
               ''ON_SUBSCRIBE'', ''ON_UNSUBSCRIBE'', ''ON_LOG''}"
  shows "ctx_callback_set E w =
           (Raises (Arg_error 2 ''not a proper callback type''), w\<lparr>stack := [x, LString s]\<rparr>)"
proof -
  have i2: "lua_isstring w 2" "lua_tolstring w 2 = (Some s, w)" "lua_isfunction w 3"
    using st by (simp_all add: lua_isstring_def lua_tolstring_def lua_isfunction_def
        index_value_def)
  have t: "callback_type_from_string E (c_str s) = - 1"
    using nm by (simp add: callback_type_from_string_eq)
  have r: "luaL_ref w =
      (fresh_ref (registry w),
       w\<lparr>stack := [x, LString s],
         registry := (fresh_ref (registry w), LFunction k) # registry w\<rparr>)"
    using st by (simp add: luaL_ref_def lua_pop_def Let_def)
  have pos: "0 \<le> fresh_ref (registry w)"
    using fresh_ref_positive [of "registry w"] by simp
  show ?thesis
    using chk
    by (simp add: ctx_callback_set_def i2 t callback_set_store_def r callback_type_defs
          luaL_unref_def pos unref_fresh)
qed

subsection \<open>Binding a hook a second time\<close>

lemma rebound_client_eq:
  "rebound_client =
     \<lparr>stack = [LUserdata 0, LString ''ON_CONNECT'', LBoolean True],
      registry = [(2, LFunction 8), (1, LFunction 7)],
      metatables = (\<lambda>x. None)(Of_udata 0 := Some Meta_ctx), next_table = 0,
      udata = (\<lambda>a. zero_ctx)
        (0 := \<lparr>ctx_L = NULL, mosq = 1, on_connect = 2, on_disconnect = - 1,
               on_publish = - 1, on_message = - 1, on_subscribe = - 1,
               on_unsubscribe = - 1, on_log = - 1\<rparr>),
      next_udata = 1,
      codec_calls =
        [Mosquitto_new (Some ''client'') True 0, Mosquitto_callback_set 1 16,
         Mosquitto_callback_set 1 16],
      calls = []\<rparr>"
  by (simp add: rebound_client_def new_client_eq eval_defs)

text \<open>
  Claim C4 says that binding a second hook for a kind replaces and releases the first.
  \<^verbatim>\<open>ctx_callback_set\<close> overwrites the reference in the context and never calls
  \<^verbatim>\<open>luaL_unref\<close> on the old one: after function 7 and then function 8 were bound to
  \<^verbatim>\<open>ON_CONNECT\<close>, the context refers to function 8 (reference 2), and the registry
  still holds function 7 under reference 1, which no field of the context names any
  more.
\<close>

theorem rebinding_keeps_first_reference:
  "on_connect (udata rebound_client 0) = 2
   \<and> registry_get rebound_client 2 = LFunction 8
   \<and> registry_get rebound_client 1 = LFunction 7
   \<and> registry rebound_client = [(2, LFunction 8), (1, LFunction 7)]"
  by (simp add: rebound_client_eq registry_get_def)

text \<open>
  The rest of the claim holds.  After \<^verbatim>\<open>callback_set(name, f)\<close> with the name of a
  kind and a Lua function \<open>f\<close>, the reference of that kind denotes \<open>f\<close>, whatever was
  bound before; so an event of the kind invokes the hook bound last and no other.
\<close>

lemma callback_set_binds:
  assumes chk: "ctx_check w 1 = Inr a"
    and st: "stack w = [x, LString s, LFunction k]"
    and nm: "c_str s = kind_name ev"
  shows "registry_get (snd (ctx_callback_set E w))
           (hook_ref (udata (snd (ctx_callback_set E w)) a) ev) = LFunction k"
proof -
  have i2: "lua_isstring w 2" "lua_tolstring w 2 = (Some s, w)" "lua_isfunction w 3"
    using st by (simp_all add: lua_isstring_def lua_tolstring_def lua_isfunction_def
        index_value_def)
  have r: "luaL_ref w =
      (fresh_ref (registry w),
       w\<lparr>stack := [x, LString s], registry := (fresh_ref (registry w), LFunction k) # registry w\<rparr>)"
    using st by (simp add: luaL_ref_def lua_pop_def Let_def)
  have i3: "lua_isfunction w 3" by (rule i2(3))
  show ?thesis
    using chk nm
    by (cases ev)
       (simp_all add: ctx_callback_set_def i2 callback_type_from_string_eq
          callback_set_store_def r callback_type_defs mosq__pstatus_def push_defs
          codec_call_def ctx_update_def registry_get_def)
qed

lemma rebinding_invokes_second_only:
  "ctx_on_connect E H 0 rc (ctx_update 0 (\<lambda>c. c\<lparr>ctx_L := Lua_state\<rparr>) rebound_client) =
     Some ((ctx_update 0 (\<lambda>c. c\<lparr>ctx_L := Lua_state\<rparr>) rebound_client)
        \<lparr>calls := [(8, [LBoolean (rc = 0), LNumber rc, LString (connect_reason rc)])]\<rparr>)"
  by (simp add: ctx_on_connect_eq hook_trace_def invocation_def registry_get_def
        rebound_client_eq ctx_update_def)

subsection \<open>Destroying an instance\<close>

text \<open>
  Claim C9 says that the first destroy clears all hook references and invalidates the
  instance, so that a second destroy fails with an error and releases nothing twice.

  \<^verbatim>\<open>ctx__on_clear\<close> releases the references through \<^verbatim>\<open>ctx->L\<close>, which is null
  outside a loop call: destroying the client that has bound hooks hands a null Lua
  state to \<^verbatim>\<open>luaL_unref\<close> with a live reference, and the behaviour is undefined.

  \<^verbatim>\<open>ctx_destroy\<close> sets the fresh metatable on the value at index -2, which is the
  instance only when the call has no further argument: after \<^verbatim>\<open>ctx:destroy(1)\<close> on
  the new client the instance still passes \<^verbatim>\<open>ctx_check\<close>, and a second destroy
  calls \<^verbatim>\<open>mosquitto_destroy\<close> on the same handle again.
\<close>

theorem destroy_fails_to_invalidate:
  "fst (ctx_destroy E (with_args [LUserdata 0] hooked_client)) = Undefined
   \<and> results (ctx_destroy E (with_args [LUserdata 0, LNumber 1] new_client))
       = Returns [LBoolean True]
   \<and> ctx_check (with_args [LUserdata 0]
        (snd (ctx_destroy E (with_args [LUserdata 0, LNumber 1] new_client)))) 1 = Inr 0
   \<and> codec_calls (snd (ctx_destroy E (with_args [LUserdata 0]
        (snd (ctx_destroy E (with_args [LUserdata 0, LNumber 1] new_client))))))
       = [Mosquitto_new (Some ''client'') True 0, Mosquitto_destroy 1, Mosquitto_destroy 1]"
  by (simp add: hooked_client_eq new_client_eq with_args_def ctx_destroy_def ctx_check_def
        luaL_checkudata_def index_value_def codec_call_def ctx__on_clear_def luaL_unref_def
        lua_newtable_def lua_setmetatable_def lua_pop_def mosq__pstatus_def results_def
        push_defs Let_def)

text \<open>
  Without bound hooks and without a further argument the claim holds: the destroyed
  instance fails \<^verbatim>\<open>ctx_check\<close>, whatever the other arguments of the later call are,
  and a second destroy raises without calling the codec.
\<close>

lemma destroy_new_client:
  "results (ctx_destroy E (with_args [LUserdata 0] new_client)) = Returns [LBoolean True]"
  "ctx_check (with_args (LUserdata 0 # args)
      (snd (ctx_destroy E (with_args [LUserdata 0] new_client)))) 1
     = Inl (Type_error 1 ''mosquitto.ctx'')"
  "ctx_destroy E (with_args [LUserdata 0]
      (snd (ctx_destroy E (with_args [LUserdata 0] new_client))))
     = (Raises (Type_error 1 ''mosquitto.ctx''),
        with_args [LUserdata 0] (snd (ctx_destroy E (with_args [LUserdata 0] new_client))))"
  by (simp_all add: new_client_eq with_args_def ctx_destroy_def ctx_check_def
        luaL_checkudata_def index_value_def codec_call_def ctx__on_clear_def luaL_unref_def
        lua_newtable_def lua_setmetatable_def lua_pop_def mosq__pstatus_def results_def
        push_defs Let_def)

subsection \<open>The protocol version\<close>

text \<open>
  Claim C8 says that an absent token falls back to the older protocol version and the
  operation reports success.  \<^verbatim>\<open>luaL_optstring\<close> returns a null pointer for an
  absent or nil token and \<^verbatim>\<open>ctx_version_set\<close> hands it to \<^verbatim>\<open>strcmp\<close>: the
  behaviour is undefined, and the codec is not called.
\<close>

theorem version_set_without_token_is_undefined:
  "ctx_version_set E rc (with_args [LUserdata 0] new_client)
     = (Undefined, with_args [LUserdata 0] new_client)
   \<and> ctx_version_set E rc (with_args [LUserdata 0, LNil] new_client)
     = (Undefined, with_args [LUserdata 0, LNil] new_client)"
  by (simp add: new_client_eq with_args_def ctx_version_set_def ctx_check_def
        luaL_checkudata_def index_value_def luaL_optstring_def lua_isnoneornil_def)

text \<open>
  For a token that is supplied the claim holds: \<^verbatim>\<open>mqttv311\<close> selects the newer
  version, every other string the older one, and the result is the codec's.
\<close>

lemma version_set_with_token:
  assumes "ctx_check w 1 = Inr a" and "index_value w 2 = Some (LString s)"
  shows "ctx_version_set E rc w =
     mosq__pstatus E rc
       (codec_call
          (Mosquitto_opts_set_protocol_version (mosq (udata w a))
             (if c_str s = ''mqttv311'' then MQTT_PROTOCOL_V311 else MQTT_PROTOCOL_V31)) w)"
  using assms
  by (simp add: ctx_version_set_def luaL_optstring_def lua_isnoneornil_def
        luaL_checklstring_def lua_tolstring_def Let_def)

subsection \<open>The client id and the clean-session flag\<close>

text \<open>
  Claim C2 says that \<^verbatim>\<open>reinitialise\<close> rejects an absent id with a false
  clean-session flag and proceeds for every other combination.
  \<^verbatim>\<open>ctx_reinitialise\<close> reads the id from index 1, where \<^verbatim>\<open>ctx_check\<close> has just
  found the instance, and the flag from index 2: the userdata is not a string, so the
  call raises for every argument list and never reaches the codec.  With the id
  "client2" and the flag true the error is that argument 1 is not a string.
\<close>

theorem reinitialise_always_raises:
  "(\<exists>e. ctx_reinitialise E rc w = (Raises e, w))
   \<and> ctx_reinitialise E rc
       (with_args [LUserdata 0, LString ''client2'', LBoolean True] new_client)
     = (Raises (Type_error 1 ''string''),
        with_args [LUserdata 0, LString ''client2'', LBoolean True] new_client)"
proof -
  have "\<exists>e. ctx_reinitialise E rc v = (Raises e, v)" for v
  proof (cases "ctx_check v 1")
    case (Inl e)
    then show ?thesis by (simp add: ctx_reinitialise_def)
  next
    case (Inr a)
    then have "index_value v 1 = Some (LUserdata a)"
      by (auto simp: ctx_check_def luaL_checkudata_def
            split: option.splits lua_value.splits if_splits)
    with Inr show ?thesis
      by (simp add: ctx_reinitialise_def luaL_optstring_def lua_isnoneornil_def
            luaL_checklstring_def lua_tolstring_def)
  qed
  moreover have "ctx_reinitialise E rc
       (with_args [LUserdata 0, LString ''client2'', LBoolean True] new_client)
     = (Raises (Type_error 1 ''string''),
        with_args [LUserdata 0, LString ''client2'', LBoolean True] new_client)"
    by (simp add: new_client_eq with_args_def ctx_reinitialise_def ctx_check_def
          luaL_checkudata_def index_value_def luaL_optstring_def lua_isnoneornil_def
          luaL_checklstring_def lua_tolstring_def)
  ultimately show ?thesis by blast
qed

text \<open>
  \<^verbatim>\<open>mosq_new\<close> does what the claim says: an absent id with a false flag is rejected
  and the state is untouched; a string id, or any flag but false, reaches
  \<^verbatim>\<open>mosquitto_new\<close>.
\<close>

lemma mosq_new_rejects:
  assumes "lua_isnoneornil w 1" and "index_value w 2 = Some (LBoolean False)"
  shows "mosq_new E h w =
           (Raises (Arg_error 2 ''if 'id' is nil then 'clean session' must be true''), w)"
  using assms
  by (simp add: mosq_new_def luaL_optstring_def lua_isboolean_def lua_toboolean_def)

lemma codec_calls_setmetatable [simp]:
  "codec_calls (lua_setmetatable i w) = codec_calls w"
  by (simp add: lua_setmetatable_def lua_pop_def split: option.splits lua_value.splits)

lemma mosq_new_proceeds:
  assumes "index_value w 1 = Some (LString s) \<or> index_value w 2 \<noteq> Some (LBoolean False)"
    and "index_value w 1 = Some (LString s) \<or> lua_isnoneornil w 1"
  shows "codec_calls (snd (mosq_new E h w)) =
           codec_calls w @
             [Mosquitto_new (if lua_isnoneornil w 1 then None else Some (c_str s))
                (index_value w 2 \<noteq> Some (LBoolean False)) (next_udata w)]"
proof -
  have cs: "(if lua_isboolean w 2 then lua_toboolean w 2 else True) =
              (index_value w 2 \<noteq> Some (LBoolean False))"
    by (auto simp: lua_isboolean_def lua_toboolean_def split: option.splits lua_value.splits)
  have opt: "luaL_optstring w 1 =
      (Inr (if lua_isnoneornil w 1 then None else Some (c_str s)), w)"
    using assms(2)
    by (auto simp: luaL_optstring_def luaL_checklstring_def lua_tolstring_def)
  have go: "\<not> ((if lua_isnoneornil w 1 then None else Some (c_str s)) = None
              \<and> \<not> (index_value w 2 \<noteq> Some (LBoolean False)))"
    using assms(1) by (auto simp: lua_isnoneornil_def)
  show ?thesis
    unfolding mosq_new_def opt prod.case sum.case Let_def cs if_not_P [OF go]
    by (cases h)
       (simp_all add: lua_newuserdata_def codec_call_def push_defs ctx_update_def
          luaL_getmetatable_def)
qed

end
